theory Spec2Isabelle
  imports Complex_Main "HOL-Library.Product_Lexorder" "HOL-Library.Char_ord"
    "HOL-Library.List_Lexorder"
begin

section \<open>Values shared by the four modules\<close>

text \<open>
  Python floats are modelled as \<^typ>\<open>real\<close>: the arithmetic below is exact, so the
  rounding of IEEE doubles is not part of the model. Python exceptions are values of
  \<open>py_error\<close>, and a function that can raise returns \<open>py_error + 'a\<close>.
\<close>

datatype py_error = ValueError | KeyError | TypeError | IntegrityError | OperationalError


section \<open>Strings\<close>

text \<open>
  Strings are lists of 8-bit characters, so the model covers ASCII text. \<open>isspace\<close>
  lists the ASCII characters Python's \<open>str.strip()\<close> and \<open>str.split()\<close> treat as
  white space; \<open>lower\<close> is \<open>str.lower()\<close> on ASCII letters, which is also the case
  folding SQLite's \<open>LIKE\<close> applies.
\<close>

definition whitespace :: "char list" where
  "whitespace = [CHR 0x09, CHR 0x0A, CHR 0x0B, CHR 0x0C, CHR 0x0D,
                 CHR 0x1C, CHR 0x1D, CHR 0x1E, CHR 0x1F, CHR '' '']"

definition isspace :: "char \<Rightarrow> bool" where
  "isspace c = (c \<in> set whitespace)"

definition strip :: "string \<Rightarrow> string" where
  "strip s = rev (dropWhile isspace (rev (dropWhile isspace s)))"

text \<open>\<open>s.split(sep)\<close> for a one-character separator: always at least one piece.\<close>

fun split_on :: "char \<Rightarrow> string \<Rightarrow> string list" where
  "split_on sep [] = [Nil]"
| "split_on sep (c # cs) =
     (if c = sep then [] # split_on sep cs
      else (case split_on sep cs of
              [] \<Rightarrow> [c # Nil]
            | w # ws \<Rightarrow> (c # w) # ws))"

text \<open>\<open>s.split()\<close>: pieces between runs of white space, no empty piece.\<close>

fun split_ws_acc :: "string \<Rightarrow> string \<Rightarrow> string list" where
  "split_ws_acc w [] = (if w = [] then [] else [rev w])"
| "split_ws_acc w (c # cs) =
     (if isspace c then (if w = [] then split_ws_acc [] cs else rev w # split_ws_acc [] cs)
      else split_ws_acc (c # w) cs)"

definition split_ws :: "string \<Rightarrow> string list" where
  "split_ws s = split_ws_acc [] s"

definition lower_char :: "char \<Rightarrow> char" where
  "lower_char c =
     (case map_of (zip ''ABCDEFGHIJKLMNOPQRSTUVWXYZ'' ''abcdefghijklmnopqrstuvwxyz'') c of
        None \<Rightarrow> c
      | Some l \<Rightarrow> l)"

definition lower :: "string \<Rightarrow> string" where
  "lower s = map lower_char s"

text \<open>
  SQLite's \<open>X LIKE P\<close> without an escape character, as \<open>like P X\<close>: \<open>%\<close> matches any
  run of characters, \<open>_\<close> any one character, every other character itself up to ASCII
  case.
\<close>

fun like :: "string \<Rightarrow> string \<Rightarrow> bool" where
  "like [] s = (s = [])"
| "like (p # ps) s =
     (if p = CHR ''%'' then
        (like ps s \<or> (case s of [] \<Rightarrow> False | c # cs \<Rightarrow> like (p # ps) cs))
      else
        (case s of
           [] \<Rightarrow> False
         | c # cs \<Rightarrow> (p = CHR ''_'' \<or> lower_char p = lower_char c) \<and> like ps cs))"

section \<open>Tables and SQL helpers\<close>

text \<open>\<open>Series.unique()\<close>: the distinct values in order of first appearance.\<close>

definition unique :: "'a list \<Rightarrow> 'a list" where
  "unique xs = rev (remdups (rev xs))"

text \<open>
  The four tables of \<open>create_database_schema\<close>. \<open>Artist\<close> and \<open>Genre\<close> rows are
  \<open>(ID, Name)\<close> and \<open>(ID, Genre)\<close>, a \<open>SongGenre\<close> row is \<open>(SongID, GenreID)\<close>.
\<close>

record song_row =
  ID :: nat
  Title :: string
  Duration :: int
  Explicit :: bool
  Year :: int
  Popularity :: real
  Danceability :: real
  Speechiness :: real
  ArtistID :: nat

record store =
  Artist :: "(nat \<times> string) list"
  Genre :: "(nat \<times> string) list"
  Song :: "song_row list"
  SongGenre :: "(nat \<times> nat) list"

text \<open>
  \<open>GROUP BY\<close>: one group per distinct key, holding the rows with that key. SQL leaves
  the order of the groups open; here it is the order of first appearance. \<open>AVG\<close> is
  only applied to the rows of a group, which are never empty.
\<close>

definition group_by :: "('a \<Rightarrow> 'k) \<Rightarrow> 'a list \<Rightarrow> ('k \<times> 'a list) list" where
  "group_by key xs = map (\<lambda>k. (k, filter (\<lambda>x. key x = k) xs)) (unique (map key xs))"

definition AVG :: "real list \<Rightarrow> real" where
  "AVG xs = sum_list xs / real (length xs)"

text \<open>SQLite's \<open>ROUND(X, Y)\<close>: to \<open>Y\<close> decimals, halves away from zero.\<close>

definition ROUND :: "real \<Rightarrow> nat \<Rightarrow> real" where
  "ROUND x n =
     (if x < 0 then - of_int \<lfloor>- x * 10 ^ n + 1 / 2\<rfloor> else of_int \<lfloor>x * 10 ^ n + 1 / 2\<rfloor>)
       / 10 ^ n"

text \<open>\<open>LIMIT n\<close>: a negative \<open>n\<close> is no limit.\<close>

definition LIMIT :: "int \<Rightarrow> 'a list \<Rightarrow> 'a list" where
  "LIMIT n xs = (if n < 0 then xs else take (nat n) xs)"

section \<open>CW\_Preprocessing.py: cleaning, filtering and loading\<close>

text \<open>
  A cell of a column of \<open>dfSongs\<close>, as \<open>pd.read_csv\<close> leaves it. \<open>NaN\<close> is an empty
  cell and \<open>Number x\<close> the float \<open>x\<close>, in a column whose cells all read as numbers.
  One cell that does not read as a number makes the column a column of Python strings:
  \<open>Text s\<close> is a string \<open>s\<close> that does not read as a number, and \<open>NumericText x\<close> a
  string that reads as the number \<open>x\<close>.
\<close>

datatype cell = NaN | Number real | NumericText real | Text string

text \<open>
  A row of \<open>dfSongs\<close> after \<open>load_and_clean_data\<close>; \<open>'c\<close> is what the cells of the
  three numeric columns are: \<^typ>\<open>cell\<close> in the frame as read, and a float
  (\<^typ>\<open>real option\<close>, in which \<open>None\<close> is NaN) in the frame that \<open>filter_data\<close>
  returns and \<open>create_and_populate_database\<close> stores. \<open>duration\<close> and \<open>year\<close> are
  integers, because \<open>load_and_clean_data\<close> ends both columns with \<open>astype(int)\<close>.
  In the columns \<open>artist\<close>, \<open>song\<close> and \<open>explicit\<close>, which no step of the cleaning
  looks at, \<open>None\<close> is an empty cell (NaN); a cell of \<open>artist\<close> or \<open>song\<close> is taken
  as its text and a cell of \<open>explicit\<close> as a truth value.
\<close>

record 'c song_record =
  artist :: "string option"
  song :: "string option"
  duration :: int
  explicit :: "bool option"
  year :: int
  popularity :: 'c
  danceability :: 'c
  speechiness :: 'c
  genres :: "string list"

text \<open>
  The genre column of \<open>load_and_clean_data\<close>: \<open>None\<close> is a cell that is not a string
  (\<open>str.split\<close> gives NaN there, which is not a list).
\<close>

definition clean_genres :: "string option \<Rightarrow> string list" where
  "clean_genres genre =
     (let x = (case genre of None \<Rightarrow> [] | Some s \<Rightarrow> map strip (split_on CHR '','' s))
      in [g \<leftarrow> x. g \<noteq> [] \<and> g \<noteq> ''set()''])"

text \<open>
  \<open>pd.to_numeric(..., errors='coerce')\<close> on one cell: the number the cell holds or
  reads as, NaN for an empty cell and for a text that does not read as a number.
\<close>

definition to_numeric :: "cell \<Rightarrow> real option" where
  "to_numeric c =
     (case c of Number x \<Rightarrow> Some x | NumericText x \<Rightarrow> Some x | NaN \<Rightarrow> None | Text s \<Rightarrow> None)"

text \<open>
  \<open>filter_data\<close> converts \<open>popularity\<close> and \<open>danceability\<close> with \<open>pd.to_numeric\<close> and
  leaves \<open>speechiness\<close> as read. On a \<open>speechiness\<close> column that holds a string,
  \<open>between(0.33, 0.66)\<close> compares the string with a float and raises \<open>TypeError\<close> for
  the whole column, so the mask is only computed for a \<open>speechiness\<close> column without
  strings, which is a float column. \<open>numeric_row\<close> is one row of the frame at that
  point.
\<close>

definition is_str :: "cell \<Rightarrow> bool" where
  "is_str c = (case c of Text s \<Rightarrow> True | NumericText x \<Rightarrow> True | _ \<Rightarrow> False)"

definition numeric_row :: "cell song_record \<Rightarrow> real option song_record" where
  "numeric_row r =
     \<lparr>artist = artist r, song = song r, duration = duration r, explicit = explicit r,
      year = year r, popularity = to_numeric (popularity r),
      danceability = to_numeric (danceability r),
      speechiness = (case speechiness r of Number x \<Rightarrow> Some x | _ \<Rightarrow> None),
      genres = genres r\<rparr>"

text \<open>The boolean mask, column by column. A comparison with NaN is false.\<close>

definition notna :: "real option \<Rightarrow> bool" where
  "notna v = (v \<noteq> None)"

definition gt :: "real option \<Rightarrow> real \<Rightarrow> bool" where
  "gt v t = (case v of None \<Rightarrow> False | Some x \<Rightarrow> x > t)"

definition between :: "real option \<Rightarrow> real \<Rightarrow> real \<Rightarrow> bool" where
  "between v left right = (case v of None \<Rightarrow> False | Some x \<Rightarrow> left \<le> x \<and> x \<le> right)"

definition filter_mask :: "real option song_record \<Rightarrow> bool" where
  "filter_mask r =
     (notna (popularity r) \<and> gt (popularity r) 50 \<and>
      notna (danceability r) \<and> gt (danceability r) (20 / 100) \<and>
      notna (speechiness r) \<and> between (speechiness r) (33 / 100) (66 / 100))"

text \<open>
  \<open>filter_data\<close>. After the mask the function prints the matching artists in the order
  of \<open>sorted(matching_artists)\<close>; \<open>unique()\<close> keeps a NaN, and sorting a NaN together
  with a string raises \<open>TypeError\<close>, while a NaN alone is sorted without a comparison.
  The per-year counts the function logs are not part of its result.
\<close>

definition filter_data :: "cell song_record list \<Rightarrow> py_error + real option song_record list" where
  "filter_data dfSongs =
     (if \<exists>r \<in> set dfSongs. is_str (speechiness r) then Inl TypeError
      else
        (let dfFiltered = filter filter_mask (map numeric_row dfSongs);
             matching_artists = unique (map artist dfFiltered)
         in if None \<in> set matching_artists \<and> 1 < length matching_artists then Inl TypeError
            else Inr dfFiltered))"

text \<open>
  \<open>create_and_populate_database\<close>. The schema is created afresh, so every
  \<open>AUTOINCREMENT\<close> key starts at 1 and \<open>cursor.lastrowid\<close> is the number of rows of the
  table after the insert. The constraints of the schema are the ways an insert raises
  \<open>sqlite3.IntegrityError\<close>: \<open>NOT NULL\<close> and \<open>UNIQUE\<close> on \<open>Artist.Name\<close> and
  \<open>Genre.Genre\<close>, \<open>NOT NULL\<close> on the columns of \<open>Song\<close>, and the primary key
  \<open>(SongID, GenreID)\<close> of \<open>SongGenre\<close>. A NaN is bound as NULL. A missing dictionary
  key raises \<open>KeyError\<close>. Any exception leaves the function before \<open>conn.commit()\<close>.

  \<open>insert_names\<close> is the loop over \<open>unique_artists\<close> and, again, the loop over
  \<open>unique_genres\<close>: it fills a two-column table and the dictionary from the values to
  their ids.
\<close>

fun insert_names ::
  "string option list \<Rightarrow> (nat \<times> string) list \<times> (string option \<rightharpoonup> nat) \<Rightarrow>
     py_error + ((nat \<times> string) list \<times> (string option \<rightharpoonup> nat))" where
  "insert_names [] (tbl, id_map) = Inr (tbl, id_map)"
| "insert_names (None # ns) (tbl, id_map) = Inl IntegrityError"
| "insert_names (Some n # ns) (tbl, id_map) =
     (if n \<in> snd ` set tbl then Inl IntegrityError
      else (let lastrowid = Suc (length tbl)
            in insert_names ns (tbl @ [(lastrowid, n)], id_map(Some n \<mapsto> lastrowid))))"

text \<open>The inner loop \<open>for genre in row['genres']\<close>.\<close>

fun insert_song_genres ::
  "(string option \<rightharpoonup> nat) \<Rightarrow> nat \<Rightarrow> string list \<Rightarrow> (nat \<times> nat) list \<Rightarrow>
     py_error + (nat \<times> nat) list" where
  "insert_song_genres genre_id_map song_id [] sg = Inr sg"
| "insert_song_genres genre_id_map song_id (g # gs) sg =
     (case genre_id_map (Some g) of
        None \<Rightarrow> Inl KeyError
      | Some genre_id \<Rightarrow>
          (if (song_id, genre_id) \<in> set sg then Inl IntegrityError
           else insert_song_genres genre_id_map song_id gs (sg @ [(song_id, genre_id)])))"

text \<open>
  The loop \<open>for _, row in df.iterrows()\<close>. The dictionary lookup is part of building
  the parameters, so it comes before the insert.
\<close>

fun insert_songs ::
  "(string option \<rightharpoonup> nat) \<Rightarrow> (string option \<rightharpoonup> nat) \<Rightarrow> real option song_record list \<Rightarrow>
     song_row list \<times> (nat \<times> nat) list \<Rightarrow> py_error + (song_row list \<times> (nat \<times> nat) list)" where
  "insert_songs artist_id_map genre_id_map [] (songs, sg) = Inr (songs, sg)"
| "insert_songs artist_id_map genre_id_map (row # rows) (songs, sg) =
     (case artist_id_map (artist row) of
        None \<Rightarrow> Inl KeyError
      | Some artist_id \<Rightarrow>
          (case (song row, explicit row, popularity row, danceability row, speechiness row) of
             (Some t, Some e, Some p, Some d, Some s) \<Rightarrow>
               (let song_id = Suc (length songs);
                    new_song = \<lparr>ID = song_id, Title = t, Duration = duration row,
                                Explicit = e, Year = year row, Popularity = p,
                                Danceability = d, Speechiness = s, ArtistID = artist_id\<rparr>
                in (case insert_song_genres genre_id_map song_id (genres row) sg of
                      Inl err \<Rightarrow> Inl err
                    | Inr sg' \<Rightarrow>
                        insert_songs artist_id_map genre_id_map rows (songs @ [new_song], sg')))
           | _ \<Rightarrow> Inl IntegrityError))"

text \<open>
  Python iterates the set \<open>unique_genres\<close> in an order of its own; the model takes the
  order of first appearance, which only decides which id a genre gets.
\<close>

definition create_and_populate_database ::
  "real option song_record list \<Rightarrow> py_error + store" where
  "create_and_populate_database df =
     (let unique_artists = unique (map artist df);
          unique_genres = unique (concat (map genres df))
      in (case insert_names unique_artists ([], Map.empty) of
            Inl e \<Rightarrow> Inl e
          | Inr (artists, artist_id_map) \<Rightarrow>
              (case insert_names (map Some unique_genres) ([], Map.empty) of
                 Inl e \<Rightarrow> Inl e
               | Inr (genre_rows, genre_id_map) \<Rightarrow>
                   (case insert_songs artist_id_map genre_id_map df ([], []) of
                      Inl e \<Rightarrow> Inl e
                    | Inr (songs, sg) \<Rightarrow>
                        Inr \<lparr>Artist = artists, Genre = genre_rows, Song = songs,
                             SongGenre = sg\<rparr>))))"

text \<open>
  What \<open>insert_songs\<close> needs of one row to insert it and its genre links: both
  dictionaries know its keys, none of its cells is empty, and its genres are pairwise
  different with different ids.
\<close>

definition loadable ::
  "(string option \<rightharpoonup> nat) \<Rightarrow> (string option \<rightharpoonup> nat) \<Rightarrow> real option song_record \<Rightarrow> bool" where
  "loadable amap gmap r =
     ((\<exists>a. amap (artist r) = Some a) \<and>
      (\<exists>t e. song r = Some t \<and> explicit r = Some e) \<and>
      (\<exists>p d s. popularity r = Some p \<and> danceability r = Some d \<and> speechiness r = Some s) \<and>
      distinct (genres r) \<and> inj_on gmap (Some ` set (genres r)) \<and>
      (\<forall>g \<in> set (genres r). \<exists>i. gmap (Some g) = Some i))"

section \<open>Genres.py: genre statistics of a year\<close>

definition validate_year :: "int \<Rightarrow> bool" where
  "validate_year y = (1998 \<le> y \<and> y \<le> 2020)"

text \<open>
  The query both branches run for nearby years:
  \<^verbatim>\<open>SELECT Year, COUNT(*) as count FROM Song GROUP BY Year HAVING count > ?
  ORDER BY ABS(Year - ?) LIMIT 2\<close>.
  \<open>sort_key\<close> is a stable sort; SQL leaves the order of rows with equal keys open.
\<close>

definition year_counts :: "store \<Rightarrow> (int \<times> nat) list" where
  "year_counts st = map (\<lambda>(yr, rows). (yr, length rows)) (group_by Year (Song st))"

definition nearest_years :: "store \<Rightarrow> int \<Rightarrow> int \<Rightarrow> (int \<times> nat) list" where
  "nearest_years st min_songs y =
     LIMIT 2 (sort_key (\<lambda>(yr, count). \<bar>yr - y\<bar>)
       [(yr, count) \<leftarrow> year_counts st. int count > min_songs])"

text \<open>The rows of the common table expression \<open>GenreSongs\<close>, as (genre, song).\<close>

definition GenreSongs :: "store \<Rightarrow> int \<Rightarrow> (string \<times> song_row) list" where
  "GenreSongs st y =
     [(g, s). s \<leftarrow> Song st, (song_id, genre_id) \<leftarrow> SongGenre st, ID s = song_id,
              (gid, g) \<leftarrow> Genre st, genre_id = gid, Year s = y]"

record genre_stats =
  gs_Genre :: string
  gs_AvgDanceability :: real
  gs_AvgPopularity :: real
  gs_AvgSpeechiness :: real
  gs_SongCount :: nat
  gs_Percentage :: real

text \<open>
  The main query. \<open>SUM(COUNT(*)) OVER ()\<close> is the sum of the counts of all groups of
  the result.
\<close>

definition genre_statistics_query :: "store \<Rightarrow> int \<Rightarrow> genre_stats list" where
  "genre_statistics_query st y =
     (let groups = group_by fst (GenreSongs st y);
          sum_count = sum_list (map (\<lambda>(g, rows). length rows) groups)
      in sort_key (\<lambda>r. - int (gs_SongCount r))
           (map (\<lambda>(g, rows).
                  \<lparr>gs_Genre = g,
                   gs_AvgDanceability = ROUND (AVG (map (Danceability \<circ> snd) rows)) 3,
                   gs_AvgPopularity = ROUND (AVG (map (Popularity \<circ> snd) rows)) 1,
                   gs_AvgSpeechiness = ROUND (AVG (map (Speechiness \<circ> snd) rows)) 3,
                   gs_SongCount = length rows,
                   gs_Percentage = ROUND (real (length rows) * 100 / real sum_count) 1\<rparr>)
                groups))"

text \<open>
  What \<open>get_genre_statistics\<close> prints besides returning: the alternatives when the year
  has no song, the warning when it has fewer than \<open>min_songs\<close>.
\<close>

datatype notice =
    Silent
  | InvalidYear
  | NoSongs "(int \<times> nat) list"
  | LimitedData nat "(int \<times> nat) list"

text \<open>
  \<open>get_genre_statistics\<close> with \<open>debug = False\<close> (the debug branch only logs). The
  result is the printed notice and the returned data frame, \<open>None\<close> for Python's
  \<open>None\<close>.
\<close>

definition get_genre_statistics ::
  "int \<Rightarrow> store \<Rightarrow> int \<Rightarrow> notice \<times> genre_stats list option" where
  "get_genre_statistics y st min_songs =
     (if \<not> validate_year y then (InvalidYear, None)
      else (let song_count = length [s \<leftarrow> Song st. Year s = y]
            in if song_count = 0 then (NoSongs (nearest_years st min_songs y), None)
               else (let printed =
                           (if int song_count < min_songs
                            then LimitedData song_count (nearest_years st min_songs y)
                            else Silent);
                         df = genre_statistics_query st y
                     in (printed, if df \<noteq> [] then Some df else None))))"

section \<open>Artist.py: popularity of an artist by genre, and suggestions\<close>


text \<open>
  \<open>get_similar_artists\<close>. With no name part the \<open>WHERE\<close> clause is empty and SQLite
  rejects the statement (\<open>sqlite3.OperationalError\<close>). \<open>COUNT(*)\<close> counts the rows of
  the group of one \<open>Name\<close>.
\<close>

definition get_similar_artists :: "string \<Rightarrow> store \<Rightarrow> int \<Rightarrow> py_error + string list" where
  "get_similar_artists name st limit =
     (let exact = [n. (i, n) \<leftarrow> Artist st, n = name]
      in if exact \<noteq> [] then Inr exact
         else (let name_parts = split_ws (lower name)
               in if name_parts = [] then Inl OperationalError
                  else (let params = map (\<lambda>part. ''%'' @ part @ ''%'') name_parts;
                            rows = [n. (i, n) \<leftarrow> Artist st, \<exists>p \<in> set params. like p n];
                            groups = map (\<lambda>(n, g). (n, length g)) (group_by id rows)
                        in Inr (map fst
                             (LIMIT limit
                                (sort_key (\<lambda>(n, matches). (- int matches, length n))
                                   groups))))))"











section \<open>Top5.py: ranking weights, ranking value and the top artists\<close>

text \<open>
  \<^verbatim>\<open>np.isclose(a, b)\<close> with numpy's default tolerances \<open>rtol = 1e-05\<close> and
  \<open>atol = 1e-08\<close> is \<open>absolute(a - b) <= atol + rtol * absolute(b)\<close>.
\<close>

definition rtol :: real where
  "rtol = 1 / 10 ^ 5"

definition atol :: real where
  "atol = 1 / 10 ^ 8"

definition isclose :: "real \<Rightarrow> real \<Rightarrow> bool" where
  "isclose a b = (\<bar>a - b\<bar> \<le> atol + rtol * \<bar>b\<bar>)"

record RankingWeights =
  song_weight :: real
  popularity_weight :: real

text \<open>\<open>RankingWeights.__init__\<close>: raises \<open>ValueError\<close> or stores both weights as given.\<close>

definition RankingWeights_init :: "real \<Rightarrow> real \<Rightarrow> py_error + RankingWeights" where
  "RankingWeights_init sw pw =
     (if \<not> isclose (sw + pw) 1 then Inl ValueError
      else Inr \<lparr>song_weight = sw, popularity_weight = pw\<rparr>)"

definition max_songs :: real where
  "max_songs = 100"

text \<open>\<open>calculate_ranking_value\<close>, with Python's \<open>min(a, b)\<close> (the first argument on a tie).\<close>

definition normalized_songs :: "nat \<Rightarrow> real" where
  "normalized_songs num_songs = min ((real num_songs / max_songs) * 100) 100"

definition calculate_ranking_value :: "nat \<Rightarrow> real \<Rightarrow> RankingWeights \<Rightarrow> real" where
  "calculate_ranking_value num_songs avg_popularity weights =
     (song_weight weights * normalized_songs num_songs) +
     (popularity_weight weights * avg_popularity)"

definition validate_year_range :: "int \<Rightarrow> int \<Rightarrow> bool" where
  "validate_year_range start_year end_year =
     (if start_year < 1998 \<or> end_year > 2020 then False
      else if start_year > end_year then False
      else True)"

text \<open>
  The query of \<open>get_top_artists\<close>. Its \<open>FROM\<close> and \<open>WHERE\<close> clauses give the joined
  rows (artist name, song); the result has one row (Artist, Year, NumSongs,
  AvgPopularity) per artist name and year with a song in the range.
\<close>

definition artist_year_join :: "store \<Rightarrow> int \<Rightarrow> int \<Rightarrow> (string \<times> song_row) list" where
  "artist_year_join st start_year end_year =
     [(a, s). s \<leftarrow> Song st, (aid, a) \<leftarrow> Artist st, ArtistID s = aid,
              start_year \<le> Year s \<and> Year s \<le> end_year]"

definition artist_year_query :: "store \<Rightarrow> int \<Rightarrow> int \<Rightarrow> (string \<times> int \<times> nat \<times> real) list" where
  "artist_year_query st start_year end_year =
     sort_key (\<lambda>(a, y, num_songs, avg). (y, - int num_songs))
       [(a, y, num_songs, avg) \<leftarrow>
          map (\<lambda>((a, y), rows). (a, y, length rows, ROUND (AVG (map (Popularity \<circ> snd) rows)) 2))
            (group_by (\<lambda>(a, s). (a, Year s)) (artist_year_join st start_year end_year)).
          num_songs > 0]"

record artist_year =
  ta_Artist :: string
  ta_Year :: int
  ta_NumSongs :: nat
  ta_AvgPopularity :: real
  ta_RankValue :: real

definition add_rank_value :: "RankingWeights \<Rightarrow> string \<times> int \<times> nat \<times> real \<Rightarrow> artist_year" where
  "add_rank_value weights row =
     (case row of (a, y, num_songs, avg) \<Rightarrow>
        \<lparr>ta_Artist = a, ta_Year = y, ta_NumSongs = num_songs, ta_AvgPopularity = avg,
         ta_RankValue = calculate_ranking_value num_songs avg weights\<rparr>)"

record summary_row =
  ts_Artist :: string
  ts_RankValue :: real
  ts_NumSongs :: nat
  ts_AvgPopularity :: real

text \<open>
  \<open>df.groupby('Artist').agg(...).sort_values('RankValue', ascending=False).head(5)\<close>:
  the groups come sorted by artist name; the sort is modelled by a stable sort.
\<close>

definition top_artists_of :: "artist_year list \<Rightarrow> summary_row list" where
  "top_artists_of df =
     take 5 (sort_key (\<lambda>r. - ts_RankValue r)
       (map (\<lambda>a. (let rows = [r \<leftarrow> df. ta_Artist r = a]
                   in \<lparr>ts_Artist = a,
                       ts_RankValue = sum_list (map ta_RankValue rows),
                       ts_NumSongs = sum_list (map ta_NumSongs rows),
                       ts_AvgPopularity = AVG (map ta_AvgPopularity rows)\<rparr>))
          (sort (remdups (map ta_Artist df)))))"

text \<open>
  The pivot table: its column labels (years) and its rows, each a label with one cell
  per column; \<open>None\<close> is NaN.
\<close>

record yearly_data =
  yd_columns :: "int list"
  yd_rows :: "(string \<times> real option list) list"

text \<open>
  \<open>pd.pivot_table(data, values='RankValue', index='Artist', columns='Year')\<close>: index
  and columns are the sorted distinct values, a cell is the mean of the values of its
  (artist, year) pair and NaN when the pair has no row.
\<close>

definition pivot_cell :: "artist_year list \<Rightarrow> string \<Rightarrow> int \<Rightarrow> real option" where
  "pivot_cell data a y =
     (let vs = map ta_RankValue [r \<leftarrow> data. ta_Artist r = a \<and> ta_Year r = y]
      in if vs = [] then None else Some (AVG vs))"

definition pivot_table :: "artist_year list \<Rightarrow> yearly_data" where
  "pivot_table data =
     (let cols = sort (remdups (map ta_Year data));
          idx = sort (remdups (map ta_Artist data))
      in \<lparr>yd_columns = cols,
          yd_rows = map (\<lambda>a. (a, map (pivot_cell data a) cols)) idx\<rparr>)"

text \<open>\<open>DataFrame.mean()\<close>: per column, the mean of the cells that are not NaN.\<close>

definition nan_mean :: "real option list \<Rightarrow> real option" where
  "nan_mean cells = (let vs = [v. Some v \<leftarrow> cells] in if vs = [] then None else Some (AVG vs))"

definition column_means :: "yearly_data \<Rightarrow> real option list" where
  "column_means yd =
     map (\<lambda>j. nan_mean (map (\<lambda>(label, cells). cells ! j) (yd_rows yd)))
       [0 ..< length (yd_columns yd)]"

text \<open>
  \<open>frame.loc[label] = values\<close>: the row with that label is overwritten when the index
  has the label, and a new row is appended when it has not.
\<close>

definition set_loc ::
  "string \<Rightarrow> real option list \<Rightarrow> (string \<times> real option list) list \<Rightarrow>
     (string \<times> real option list) list" where
  "set_loc label vals rows =
     (if label \<in> fst ` set rows
      then map (\<lambda>(l, cells). if l = label then (l, vals) else (l, cells)) rows
      else rows @ [(label, vals)])"

definition get_top_artists ::
  "int \<Rightarrow> int \<Rightarrow> RankingWeights \<Rightarrow> store \<Rightarrow> (yearly_data \<times> summary_row list) option" where
  "get_top_artists start_year end_year weights st =
     (let rows = artist_year_query st start_year end_year
      in if rows = [] then None
         else (let df = map (add_rank_value weights) rows;
                   top_artists = top_artists_of df;
                   yd = pivot_table [r \<leftarrow> df. ta_Artist r \<in> ts_Artist ` set top_artists];
                   yearly = yd\<lparr>yd_rows := set_loc ''Average'' (column_means yd) (yd_rows yd)\<rparr>
               in Some (yearly, top_artists)))"

text \<open>The cell of a pivot table at a row label and a column label, if both exist.\<close>

definition cell_at :: "yearly_data \<Rightarrow> string \<Rightarrow> int \<Rightarrow> real option option" where
  "cell_at yd label y =
     (case map_of (yd_rows yd) label of
        None \<Rightarrow> None
      | Some cells \<Rightarrow> map_of (zip (yd_columns yd) cells) y)"

text \<open>
  The ranking output in terms of the store: the songs of the artists of a given name in
  a year, the rank value of that name and year (\<open>None\<close> when there is no song), and the
  row of the data frame for them.
\<close>

definition artist_year_songs :: "store \<Rightarrow> string \<Rightarrow> int \<Rightarrow> song_row list" where
  "artist_year_songs st a y =
     [s. s \<leftarrow> Song st, (aid, n) \<leftarrow> Artist st, ArtistID s = aid, n = a, Year s = y]"

definition rank_cell :: "store \<Rightarrow> RankingWeights \<Rightarrow> string \<Rightarrow> int \<Rightarrow> real option" where
  "rank_cell st weights a y =
     (let songs = artist_year_songs st a y
      in if songs = [] then None
         else Some (calculate_ranking_value (length songs)
                      (ROUND (AVG (map Popularity songs)) 2) weights))"

definition ranked_row :: "store \<Rightarrow> RankingWeights \<Rightarrow> string \<Rightarrow> int \<Rightarrow> artist_year" where
  "ranked_row st weights a y =
     (let songs = artist_year_songs st a y;
          avg = ROUND (AVG (map Popularity songs)) 2
      in \<lparr>ta_Artist = a, ta_Year = y, ta_NumSongs = length songs, ta_AvgPopularity = avg,
          ta_RankValue = calculate_ranking_value (length songs) avg weights\<rparr>)"

section \<open>Example inputs\<close>

text \<open>Concrete records and stores at which the theorems below are instantiated.\<close>

definition example_record :: "'c \<Rightarrow> 'c \<Rightarrow> 'c \<Rightarrow> 'c song_record" where
  "example_record p d s =
     \<lparr>artist = Some ''A'', song = Some ''S'', duration = 200, explicit = Some False,
      year = 2010, popularity = p, danceability = d, speechiness = s, genres = [''pop'']\<rparr>"

definition example_row :: "string \<Rightarrow> int \<Rightarrow> real \<Rightarrow> string option \<Rightarrow> cell song_record" where
  "example_row a y p genre =
     \<lparr>artist = Some a, song = Some ''S'', duration = 200, explicit = Some False, year = y,
      popularity = Number p, danceability = Number (1 / 2), speechiness = Number (1 / 2),
      genres = clean_genres genre\<rparr>"

definition filter_examples :: "cell song_record list" where
  "filter_examples =
     [example_record (Number 51) (Number (21 / 100)) (Number (50 / 100)),
      example_record (Number 51) (Number (21 / 100)) (Number (67 / 100)),
      example_record (Number 51) (Number (20 / 100)) (Number (50 / 100)),
      example_record (Number 50) (Number (21 / 100)) (Number (33 / 100)),
      example_record (Number 51) (Number (21 / 100)) NaN,
      example_record NaN (Number (21 / 100)) (Number (50 / 100)),
      example_record (Number 51) (Number (21 / 100)) (Number (66 / 100))]"

definition example_song :: "nat \<Rightarrow> int \<Rightarrow> real \<Rightarrow> nat \<Rightarrow> song_row" where
  "example_song i y p a =
     \<lparr>ID = i, Title = ''S'', Duration = 200, Explicit = False, Year = y, Popularity = p,
      Danceability = 1 / 2, Speechiness = 1 / 2, ArtistID = a\<rparr>"

definition years_store :: store where
  "years_store =
     \<lparr>Artist = [(1, ''A'')], Genre = [(1, ''pop'')],
      Song = map (\<lambda>(i, y). example_song i y 60 1)
               (zip [1 ..< 35]
                  (replicate 11 2005 @ replicate 11 2002 @ [2003] @ replicate 11 2010)),
      SongGenre = []\<rparr>"

definition two_genre_record :: "cell song_record" where
  "two_genre_record = example_row ''A'' 2000 60 (Some ''pop, rock'')"

definition two_genre_store :: store where
  "two_genre_store =
     \<lparr>Artist = [(1, ''A'')], Genre = [(1, ''pop''), (2, ''rock'')],
      Song = [example_song 1 2000 60 1], SongGenre = [(1, 1), (1, 2)]\<rparr>"


definition dup_genre_record :: "cell song_record" where
  "dup_genre_record = example_row ''A'' 2000 60 (Some ''pop, pop'')"

definition untitled_record :: "cell song_record" where
  "untitled_record = (example_row ''A'' 2000 60 (Some ''pop''))\<lparr>song := None\<rparr>"

definition loader_examples :: "cell song_record list" where
  "loader_examples =
     [two_genre_record, example_record (Number 51) (Number (21 / 100)) (Number (1 / 2))]"

definition loaded_store :: store where
  "loaded_store =
     \<lparr>Artist = [(1, ''A'')], Genre = [(1, ''pop''), (2, ''rock'')],
      Song = [example_song 1 2000 60 1,
              \<lparr>ID = 2, Title = ''S'', Duration = 200, Explicit = False, Year = 2010,
               Popularity = 51, Danceability = 21 / 100, Speechiness = 1 / 2, ArtistID = 1\<rparr>],
      SongGenre = [(1, 1), (1, 2), (2, 1)]\<rparr>"

definition west_records :: "cell song_record list" where
  "west_records =
     [example_row ''Kanye West'' 2010 70 (Some ''Pop''),
      example_row ''West'' 2011 60 (Some ''Pop'')]"

definition west_store :: store where
  "west_store =
     \<lparr>Artist = [(1, ''Kanye West''), (2, ''West'')], Genre = [(1, ''Pop'')],
      Song = [example_song 1 2010 70 1, example_song 2 2011 60 2],
      SongGenre = [(1, 1), (2, 1)]\<rparr>"

definition default_weights :: RankingWeights where
  "default_weights = \<lparr>song_weight = 4 / 10, popularity_weight = 6 / 10\<rparr>"

definition ranking_records :: "string \<Rightarrow> cell song_record list" where
  "ranking_records first_artist =
     [example_row first_artist 2010 60 (Some ''Pop''),
      example_row ''B'' 2011 70 (Some ''Pop'')]"

definition ranking_store :: "string \<Rightarrow> store" where
  "ranking_store first_artist =
     \<lparr>Artist = [(1, first_artist), (2, ''B'')], Genre = [(1, ''Pop'')],
      Song = [example_song 1 2010 60 1, example_song 2 2011 70 2],
      SongGenre = [(1, 1), (2, 1)]\<rparr>"

text \<open>
  The frames \<open>get_top_artists\<close> goes through on \<open>ranking_store ''Average''\<close>: the
  data frame with its rank values, the summary of the top artists, and the pivot table
  before the row \<open>Average\<close> is set.
\<close>

definition average_df :: "artist_year list" where
  "average_df =
     [\<lparr>ta_Artist = ''Average'', ta_Year = 2010, ta_NumSongs = 1, ta_AvgPopularity = 60,
       ta_RankValue = 182 / 5\<rparr>,
      \<lparr>ta_Artist = ''B'', ta_Year = 2011, ta_NumSongs = 1, ta_AvgPopularity = 70,
       ta_RankValue = 212 / 5\<rparr>]"

definition average_top :: "summary_row list" where
  "average_top =
     [\<lparr>ts_Artist = ''B'', ts_RankValue = 212 / 5, ts_NumSongs = 1, ts_AvgPopularity = 70\<rparr>,
      \<lparr>ts_Artist = ''Average'', ts_RankValue = 182 / 5, ts_NumSongs = 1,
       ts_AvgPopularity = 60\<rparr>]"

definition average_pivot :: yearly_data where
  "average_pivot =
     \<lparr>yd_columns = [2010, 2011],
      yd_rows = [(''Average'', [Some (182 / 5), None]), (''B'', [None, Some (212 / 5)])]\<rparr>"

section \<open>Lemmas about the helpers\<close>

lemma set_unique [simp]: "set (unique xs) = set xs"
  by (simp add: unique_def)

lemma distinct_unique [simp]: "distinct (unique xs)"
  by (simp add: unique_def)

lemma map_fst_group_by: "map fst (group_by key xs) = unique (map key xs)"
  by (simp add: group_by_def comp_def)

lemma set_group_by:
  "set (group_by key xs) = (\<lambda>k. (k, filter (\<lambda>x. key x = k) xs)) ` key ` set xs"
  by (simp add: group_by_def)

lemma sum_list_indicator:
  "distinct ks \<Longrightarrow> k \<in> set ks \<Longrightarrow> (\<Sum>k'\<leftarrow>ks. if k = k' then 1 else 0) = (1::nat)"
  by (induction ks) auto

lemma sum_list_group_sizes:
  "distinct ks \<Longrightarrow> key ` set xs \<subseteq> set ks \<Longrightarrow>
   (\<Sum>k\<leftarrow>ks. length (filter (\<lambda>x. key x = k) xs)) = length xs"
proof (induction xs)
  case Nil
  then show ?case by simp
next
  case (Cons x xs)
  have "(\<Sum>k\<leftarrow>ks. length (filter (\<lambda>x. key x = k) (x # xs))) =
        (\<Sum>k\<leftarrow>ks. (if key x = k then 1 else 0) + length (filter (\<lambda>x. key x = k) xs))"
    by (rule arg_cong [where f = sum_list]) simp
  also have "\<dots> = (\<Sum>k\<leftarrow>ks. if key x = k then 1 else 0) + (\<Sum>k\<leftarrow>ks. length (filter (\<lambda>x. key x = k) xs))"
    by (simp add: sum_list_addf)
  also have "\<dots> = 1 + length xs"
    using Cons by (simp add: sum_list_indicator)
  finally show ?case by simp
qed

lemma sum_list_group_by:
  "sum_list (map (\<lambda>(k, rows). length rows) (group_by key xs)) = length xs"
  using sum_list_group_sizes [of "unique (map key xs)" key xs]
  by (simp add: group_by_def comp_def)


lemma sorted_take_drop_le:
  "sorted (map f xs) \<Longrightarrow> a \<in> set (take n xs) \<Longrightarrow> b \<in> set (drop n xs) \<Longrightarrow> f a \<le> f b"
proof -
  assume s: "sorted (map f xs)" and a: "a \<in> set (take n xs)" and b: "b \<in> set (drop n xs)"
  have "map f xs = map f (take n xs) @ map f (drop n xs)"
    by (simp flip: map_append)
  with s have "sorted (map f (take n xs) @ map f (drop n xs))"
    by simp
  then have "\<forall>x \<in> set (map f (take n xs)). \<forall>y \<in> set (map f (drop n xs)). x \<le> y"
    by (simp add: sorted_append)
  with a b show ?thesis by simp
qed

lemma set_year_counts:
  "set (year_counts st) =
     (\<lambda>yr. (yr, length [s \<leftarrow> Song st. Year s = yr])) ` Year ` set (Song st)"
  by (auto simp add: year_counts_def set_group_by image_iff)

lemma distinct_year_counts: "distinct (map fst (year_counts st))"
proof -
  have "map fst (year_counts st) = map fst (group_by Year (Song st))"
    by (simp add: year_counts_def comp_def case_prod_unfold)
  then show ?thesis by (simp add: map_fst_group_by)
qed

lemma nearest_years_eq:
  "nearest_years st min_songs y =
     take 2 (sort_key (\<lambda>(yr, count). \<bar>yr - y\<bar>)
       [(yr, count) \<leftarrow> year_counts st. int count > min_songs])"
  by (simp add: nearest_years_def LIMIT_def)

lemma set_having:
  "set [(yr, count) \<leftarrow> year_counts st. int count > min_songs] =
     {(yr, c). yr \<in> Year ` set (Song st) \<and> c = length [s \<leftarrow> Song st. Year s = yr] \<and>
        int c > min_songs}"
  unfolding set_filter set_year_counts by auto

lemma distinct_having:
  "distinct (map fst [(yr, count) \<leftarrow> year_counts st. int count > min_songs])"
  by (rule distinct_map_filter) (rule distinct_year_counts)

lemma nearest_years_props:
  fixes st min_songs y
  defines "alts \<equiv> nearest_years st min_songs y"
  shows "length alts \<le> 2"
    and "(yr, c) \<in> set alts \<Longrightarrow> c = length [s \<leftarrow> Song st. Year s = yr] \<and> int c > min_songs"
    and "distinct (map fst alts)"
    and "yr \<in> Year ` set (Song st) \<Longrightarrow> int (length [s \<leftarrow> Song st. Year s = yr]) > min_songs \<Longrightarrow>
         yr \<notin> fst ` set alts \<Longrightarrow> length alts = 2 \<and> (\<forall>a \<in> fst ` set alts. \<bar>a - y\<bar> \<le> \<bar>yr - y\<bar>)"
proof -
  define cands where "cands = [(yr, count) \<leftarrow> year_counts st. int count > min_songs]"
  define sorted_cands where "sorted_cands = sort_key (\<lambda>(yr, count). \<bar>yr - y\<bar>) cands"
  have alts: "alts = take 2 sorted_cands"
    by (simp add: alts_def nearest_years_eq sorted_cands_def cands_def)
  have set_sorted: "set sorted_cands = set cands"
    by (simp add: sorted_cands_def)
  show "length alts \<le> 2"
    by (simp add: alts)
  show "c = length [s \<leftarrow> Song st. Year s = yr] \<and> int c > min_songs" if "(yr, c) \<in> set alts"
  proof -
    from that have "(yr, c) \<in> set cands"
      using set_sorted alts by (auto dest: in_set_takeD)
    then show ?thesis
      unfolding cands_def set_having by simp
  qed
  have "distinct (map fst sorted_cands)"
    using distinct_having [of min_songs st]
    by (simp add: sorted_cands_def cands_def distinct_map)
  then show "distinct (map fst alts)"
    by (simp add: alts take_map [symmetric] del: take_map)
  show "length alts = 2 \<and> (\<forall>a \<in> fst ` set alts. \<bar>a - y\<bar> \<le> \<bar>yr - y\<bar>)"
    if yr: "yr \<in> Year ` set (Song st)"
      and more: "int (length [s \<leftarrow> Song st. Year s = yr]) > min_songs"
      and out: "yr \<notin> fst ` set alts"
  proof -
    let ?c = "length [s \<leftarrow> Song st. Year s = yr]"
    have "(yr, ?c) \<in> set cands"
      unfolding cands_def set_having using yr more by simp
    moreover have "set sorted_cands = set (take 2 sorted_cands) \<union> set (drop 2 sorted_cands)"
      by (metis append_take_drop_id set_append)
    moreover have "(yr, ?c) \<notin> set (take 2 sorted_cands)"
      using out by (force simp add: alts)
    ultimately have dropped: "(yr, ?c) \<in> set (drop 2 sorted_cands)"
      using set_sorted by blast
    then have "drop 2 sorted_cands \<noteq> []"
      by auto
    then have len: "length alts = 2"
      by (simp add: alts)
    have srt: "sorted (map (\<lambda>(yr, count). \<bar>yr - y\<bar>) sorted_cands)"
      by (simp add: sorted_cands_def)
    have "\<bar>a - y\<bar> \<le> \<bar>yr - y\<bar>" if "a \<in> fst ` set alts" for a
    proof -
      from that obtain c where "(a, c) \<in> set (take 2 sorted_cands)"
        by (auto simp add: alts)
      from sorted_take_drop_le [OF srt this dropped] show ?thesis
        by simp
    qed
    with len show ?thesis by blast
  qed
qed

lemma sum_list_insort_key:
  "sum_list (map h (insort_key f x xs)) = h x + sum_list (map h xs)"
  for h :: "'a \<Rightarrow> nat"
  by (induction xs) simp_all

lemma sum_list_sort_key:
  "sum_list (map h (sort_key f xs)) = sum_list (map h xs)"
  for h :: "'a \<Rightarrow> nat"
  by (induction xs) (simp_all add: sum_list_insort_key)



section \<open>Claims about the ranking weights\<close>

lemma isclose_one: "isclose s 1 = (\<bar>s - 1\<bar> \<le> 1001 / 10 ^ 8)"
  by (simp add: isclose_def atol_def rtol_def)

lemma normalized_songs_min: "normalized_songs n = min (real n) 100"
  by (simp add: normalized_songs_def max_songs_def)

text \<open>
  C3 (amended). Construction of the ranking weights succeeds exactly when the sum of the
  two weights differs from 1.0 by at most \<open>1e-8 + 1e-5 * 1.0 = 1.001e-5\<close>, the default
  tolerance of \<open>np.isclose\<close>, and raises otherwise; in particular it succeeds for
  every pair whose sum is within \<open>1e-9\<close> of 1.0.
\<close>

theorem C3_weights_tolerance:
  "((\<exists>w. RankingWeights_init sw pw = Inr w) = (\<bar>sw + pw - 1\<bar> \<le> 1001 / 10 ^ 8)) \<and>
   ((RankingWeights_init sw pw = Inl ValueError) = (\<bar>sw + pw - 1\<bar> > 1001 / 10 ^ 8)) \<and>
   (\<bar>sw + pw - 1\<bar> \<le> 1 / 10 ^ 9 \<longrightarrow>
      RankingWeights_init sw pw = Inr \<lparr>song_weight = sw, popularity_weight = pw\<rparr>)"
  by (auto simp add: RankingWeights_init_def isclose_one)

theorem C3_weights_tolerance_witness:
  "\<bar>(4 / 10 :: real) + 6 / 10 - 1\<bar> \<le> 1 / 10 ^ 9 \<and>
   RankingWeights_init (4 / 10) (6 / 10) =
     Inr \<lparr>song_weight = 4 / 10, popularity_weight = 6 / 10\<rparr>"
  using C3_weights_tolerance [of "4 / 10" "6 / 10"] by simp

text \<open>
  The claim as stated fails: the weights 0.4 and 0.600001 sum to 1.000001, which is
  outside the \<open>1e-9\<close> tolerance, and construction succeeds all the same.
\<close>

theorem C3_counterexample:
  "\<bar>(4 / 10 :: real) + 600001 / 10 ^ 6 - 1\<bar> > 1 / 10 ^ 9 \<and>
   RankingWeights_init (4 / 10) (600001 / 10 ^ 6) =
     Inr \<lparr>song_weight = 4 / 10, popularity_weight = 600001 / 10 ^ 6\<rparr>"
  by (simp add: RankingWeights_init_def isclose_one)

text \<open>
  C6. For every song count \<open>n\<close>, average popularity \<open>p\<close> and weights accepted by the
  constructor, the ranking value is
  \<open>song_weight * min((n / 100) * 100, 100) + popularity_weight * p\<close>; the normalised
  song count is \<open>n\<close> clamped to 100, so for \<open>n = 150\<close> it is 100, not 150.
\<close>

theorem C6_ranking_value:
  "RankingWeights_init sw pw = Inr w \<Longrightarrow>
   calculate_ranking_value n p w = sw * min ((real n / 100) * 100) 100 + pw * p \<and>
   calculate_ranking_value n p w = sw * min (real n) 100 + pw * p \<and>
   normalized_songs 150 = 100 \<and>
   calculate_ranking_value 150 p w = sw * 100 + pw * p"
proof -
  assume "RankingWeights_init sw pw = Inr w"
  then have w: "song_weight w = sw" "popularity_weight w = pw"
    by (auto simp add: RankingWeights_init_def split: if_splits)
  have "real n / 100 * 100 = real n"
    by simp
  then show ?thesis
    by (simp add: calculate_ranking_value_def normalized_songs_def max_songs_def w)
qed

theorem C6_ranking_value_witness:
  "RankingWeights_init (4 / 10) (6 / 10) =
     Inr \<lparr>song_weight = 4 / 10, popularity_weight = 6 / 10\<rparr> \<and>
   calculate_ranking_value 150 0 \<lparr>song_weight = 4 / 10, popularity_weight = 6 / 10\<rparr> = 40"
proof -
  have h: "RankingWeights_init (4 / 10) (6 / 10) =
      Inr \<lparr>song_weight = 4 / 10, popularity_weight = 6 / 10\<rparr>"
    by (simp add: RankingWeights_init_def isclose_one)
  show ?thesis using h C6_ranking_value [OF h, of 150 0] by simp
qed

text \<open>
  C10. The constructor checks the sum only, not the range of either weight: for every
  \<open>song_weight\<close>, negative or above 1, the pair with \<open>popularity_weight\<close> equal to
  \<open>1 - song_weight\<close> is accepted. So the pair \<open>song_weight = -1.0\<close>,
  \<open>popularity_weight = 2.0\<close> is accepted, and the ranking value is computed with these
  weights unchanged, \<open>-1.0 * min(n, 100) + 2.0 * p\<close>.
\<close>

theorem C10_negative_weight_accepted:
  "RankingWeights_init sw (1 - sw) = Inr \<lparr>song_weight = sw, popularity_weight = 1 - sw\<rparr> \<and>
   calculate_ranking_value n p \<lparr>song_weight = sw, popularity_weight = 1 - sw\<rparr> =
     sw * min (real n) 100 + (1 - sw) * p \<and>
   RankingWeights_init (- 1) 2 = Inr \<lparr>song_weight = - 1, popularity_weight = 2\<rparr> \<and>
   calculate_ranking_value n p \<lparr>song_weight = - 1, popularity_weight = 2\<rparr> =
     - 1 * min (real n) 100 + 2 * p"
  by (simp add: RankingWeights_init_def isclose_one calculate_ranking_value_def
      normalized_songs_min)

theorem C10_negative_weight_accepted_witness:
  "RankingWeights_init (- 1) 2 = Inr \<lparr>song_weight = - 1, popularity_weight = 2\<rparr> \<and>
   calculate_ranking_value 10 50 \<lparr>song_weight = - 1, popularity_weight = 2\<rparr> = 90"
  using C10_negative_weight_accepted [of "- 1" 10 50] by simp

section \<open>Claims about the filter stage\<close>

lemma filter_mask_iff:
  "filter_mask r =
     (\<exists>p d s. popularity r = Some p \<and> danceability r = Some d \<and> speechiness r = Some s \<and>
        p > 50 \<and> d > 20 / 100 \<and> 33 / 100 \<le> s \<and> s \<le> 66 / 100)"
  by (cases "popularity r"; cases "danceability r"; cases "speechiness r")
    (simp_all add: filter_mask_def notna_def gt_def between_def)

lemma filter_mask_numeric_row:
  "filter_mask (numeric_row r) =
     (\<exists>p d s. to_numeric (popularity r) = Some p \<and> to_numeric (danceability r) = Some d \<and>
        speechiness r = Number s \<and> p > 50 \<and> d > 20 / 100 \<and> 33 / 100 \<le> s \<and> s \<le> 66 / 100)"
  by (cases "to_numeric (popularity r)"; cases "to_numeric (danceability r)";
      cases "speechiness r")
    (simp_all add: filter_mask_def numeric_row_def notna_def gt_def between_def)

lemma to_numeric_simps:
  "to_numeric NaN = None" "to_numeric (Text t) = None"
  "to_numeric (Number x) = Some x" "to_numeric (NumericText x) = Some x"
  by (simp_all add: to_numeric_def)

text \<open>
  One string in the \<open>speechiness\<close> column makes \<open>filter_data\<close> raise, whatever the
  other cells and the other records hold.
\<close>

lemma filter_data_text_speechiness:
  "r \<in> set dfSongs \<Longrightarrow> is_str (speechiness r) \<Longrightarrow> filter_data dfSongs = Inl TypeError"
  by (auto simp add: filter_data_def)

text \<open>
  What \<open>filter_data\<close> returns, when it returns: the records with popularity above 50,
  danceability above 0.20 and speechiness between 0.33 and 0.66 inclusive, in their
  order. A record with an empty cell in one of the three columns, or with a text that
  does not read as a number in \<open>popularity\<close> or \<open>danceability\<close>, is not among them.
\<close>

lemma filter_data_returns:
  assumes "filter_data dfSongs = Inr dfFiltered"
  shows "dfFiltered =
           map numeric_row
             [r \<leftarrow> dfSongs.
                \<exists>p d s. to_numeric (popularity r) = Some p \<and>
                  to_numeric (danceability r) = Some d \<and> speechiness r = Number s \<and>
                  p > 50 \<and> d > 20 / 100 \<and> 33 / 100 \<le> s \<and> s \<le> 66 / 100]"
proof -
  from assms have "dfFiltered = filter filter_mask (map numeric_row dfSongs)"
    by (simp add: filter_data_def Let_def split: if_splits)
  also have "\<dots> = map numeric_row (filter (\<lambda>r. filter_mask (numeric_row r)) dfSongs)"
    by (simp add: filter_map comp_def)
  finally show ?thesis
    unfolding filter_mask_numeric_row .
qed

lemma filter_data_kept_numeric:
  assumes "filter_data dfSongs = Inr dfFiltered" and "r \<in> set dfFiltered"
  shows "filter_mask r"
  using assms by (auto simp add: filter_data_def Let_def split: if_splits)

text \<open>
  \<open>filter_data\<close> returns for a frame without a string in \<open>speechiness\<close> and without
  an empty cell in \<open>artist\<close>.
\<close>

lemma filter_data_retains:
  assumes "\<forall>r \<in> set dfSongs. \<not> is_str (speechiness r)"
    and "\<forall>r \<in> set dfSongs. artist r \<noteq> None"
  shows "filter_data dfSongs =
           Inr (map numeric_row
             [r \<leftarrow> dfSongs.
                \<exists>p d s. to_numeric (popularity r) = Some p \<and>
                  to_numeric (danceability r) = Some d \<and> speechiness r = Number s \<and>
                  p > 50 \<and> d > 20 / 100 \<and> 33 / 100 \<le> s \<and> s \<le> 66 / 100])"
proof -
  have "None \<notin> set (unique (map artist (filter filter_mask (map numeric_row dfSongs))))"
  proof
    assume "None \<in> set (unique (map artist (filter filter_mask (map numeric_row dfSongs))))"
    then obtain r where "r \<in> set dfSongs" and "artist (numeric_row r) = None"
      by force
    with assms(2) show False
      by (auto simp add: numeric_row_def)
  qed
  with assms(1) have "filter_data dfSongs = Inr (filter filter_mask (map numeric_row dfSongs))"
    by (simp add: filter_data_def Let_def)
  from filter_data_returns [OF this] this show ?thesis
    by simp
qed

text \<open>
  A kept record with an empty \<open>artist\<close> cell beside a kept record of a named artist
  makes \<open>filter_data\<close> raise as well, where it sorts the artists to print them.
\<close>

lemma filter_data_empty_artist:
  "filter_data
     [example_record (Number 51) (Number (21 / 100)) (Number (1 / 2)),
      (example_record (Number 51) (Number (21 / 100)) (Number (1 / 2)))\<lparr>artist := None\<rparr>] =
     Inl TypeError"
  by (simp add: filter_data_def example_record_def is_str_def numeric_row_def to_numeric_def
      filter_mask_def notna_def gt_def between_def unique_def Let_def)

text \<open>The examples of the specification, and two records with an empty cell.\<close>

lemma filter_examples_kept:
  "filter_data filter_examples =
     Inr [example_record (Some 51) (Some (21 / 100)) (Some (50 / 100)),
          example_record (Some 51) (Some (21 / 100)) (Some (66 / 100))]"
  by (simp add: filter_data_def filter_examples_def example_record_def is_str_def
      numeric_row_def to_numeric_def filter_mask_def notna_def gt_def between_def unique_def
      Let_def)


section \<open>Claims about the genre statistics of a year\<close>

text \<open>
  C9. For a valid year (1998 to 2020) with no song in the store, \<open>get_genre_statistics\<close>
  returns no result and reports at most 2 alternative years. Each alternative is a
  different year of the store with strictly more songs than \<open>min_songs\<close>, and the
  alternatives are the nearest such years: a year with more than \<open>min_songs\<close> songs is
  only left out when two alternatives are reported and both are at most as far away.
\<close>

theorem C9_no_songs_alternatives:
  assumes "validate_year y" and "length [s \<leftarrow> Song st. Year s = y] = 0"
  shows "\<exists>alts. get_genre_statistics y st min_songs = (NoSongs alts, None) \<and>
     length alts \<le> 2 \<and>
     distinct (map fst alts) \<and>
     (\<forall>(yr, c) \<in> set alts. c = length [s \<leftarrow> Song st. Year s = yr] \<and> int c > min_songs) \<and>
     (\<forall>yr. yr \<in> Year ` set (Song st) \<and>
            int (length [s \<leftarrow> Song st. Year s = yr]) > min_songs \<and> yr \<notin> fst ` set alts \<longrightarrow>
          length alts = 2 \<and> (\<forall>a \<in> fst ` set alts. \<bar>a - y\<bar> \<le> \<bar>yr - y\<bar>))"
proof -
  have "get_genre_statistics y st min_songs = (NoSongs (nearest_years st min_songs y), None)"
    using assms by (simp add: get_genre_statistics_def)
  moreover have "length (nearest_years st min_songs y) \<le> 2"
    by (rule nearest_years_props(1))
  moreover have "distinct (map fst (nearest_years st min_songs y))"
    by (rule nearest_years_props(3))
  moreover have "\<forall>(yr, c) \<in> set (nearest_years st min_songs y).
      c = length [s \<leftarrow> Song st. Year s = yr] \<and> int c > min_songs"
    using nearest_years_props(2) [of _ _ st min_songs y] by blast
  moreover have "\<forall>yr. yr \<in> Year ` set (Song st) \<and>
            int (length [s \<leftarrow> Song st. Year s = yr]) > min_songs \<and>
            yr \<notin> fst ` set (nearest_years st min_songs y) \<longrightarrow>
          length (nearest_years st min_songs y) = 2 \<and>
          (\<forall>a \<in> fst ` set (nearest_years st min_songs y). \<bar>a - y\<bar> \<le> \<bar>yr - y\<bar>)"
    using nearest_years_props(4) [of _ st min_songs y] by blast
  ultimately show ?thesis by blast
qed


theorem C9_no_songs_alternatives_witness:
  "validate_year 2004 \<and> length [s \<leftarrow> Song years_store. Year s = 2004] = 0 \<and>
   get_genre_statistics 2004 years_store 10 = (NoSongs [(2005, 11), (2002, 11)], None)"
proof -
  have v: "validate_year 2004"
    by (simp add: validate_year_def)
  have z: "length [s \<leftarrow> Song years_store. Year s = 2004] = 0"
    by (simp add: years_store_def example_song_def upt_rec eval_nat_numeral)
  have r: "get_genre_statistics 2004 years_store 10 = (NoSongs [(2005, 11), (2002, 11)], None)"
    by (simp add: get_genre_statistics_def validate_year_def nearest_years_def LIMIT_def
        year_counts_def group_by_def unique_def years_store_def example_song_def upt_rec
        eval_nat_numeral)
  from C9_no_songs_alternatives [OF v z, of 10] obtain alts where
    "get_genre_statistics 2004 years_store 10 = (NoSongs alts, None)" and "length alts \<le> 2"
    by blast
  with v z r show ?thesis
    by simp
qed

lemma genre_statistics_query_row:
  assumes "r \<in> set (genre_statistics_query st y)"
  shows "gs_SongCount r = length [x \<leftarrow> GenreSongs st y. fst x = gs_Genre r]"
    and "gs_Percentage r =
           ROUND (real (gs_SongCount r) * 100 / real (length (GenreSongs st y))) 1"
proof -
  from assms obtain g rows where
    grp: "(g, rows) \<in> set (group_by fst (GenreSongs st y))" and
    r: "r = \<lparr>gs_Genre = g,
              gs_AvgDanceability = ROUND (AVG (map (Danceability \<circ> snd) rows)) 3,
              gs_AvgPopularity = ROUND (AVG (map (Popularity \<circ> snd) rows)) 1,
              gs_AvgSpeechiness = ROUND (AVG (map (Speechiness \<circ> snd) rows)) 3,
              gs_SongCount = length rows,
              gs_Percentage = ROUND (real (length rows) * 100 / real (length (GenreSongs st y))) 1\<rparr>"
    by (auto simp add: genre_statistics_query_def Let_def sum_list_group_by)
  from grp have rows: "rows = [x \<leftarrow> GenreSongs st y. fst x = g]"
    by (auto simp add: set_group_by)
  show "gs_SongCount r = length [x \<leftarrow> GenreSongs st y. fst x = gs_Genre r]"
    by (simp add: r rows)
  show "gs_Percentage r =
           ROUND (real (gs_SongCount r) * 100 / real (length (GenreSongs st y))) 1"
    by (simp add: r)
qed

lemma genre_statistics_query_total:
  "sum_list (map gs_SongCount (genre_statistics_query st y)) = length (GenreSongs st y)"
proof -
  have "sum_list (map gs_SongCount (genre_statistics_query st y)) =
        sum_list (map (\<lambda>(k, rows). length rows) (group_by fst (GenreSongs st y)))"
    by (simp add: genre_statistics_query_def Let_def sum_list_sort_key comp_def
        case_prod_unfold)
  then show ?thesis
    by (simp add: sum_list_group_by)
qed

lemma two_genre_statistics:
  "get_genre_statistics 2000 two_genre_store 10 =
     (LimitedData 1 [],
      Some [\<lparr>gs_Genre = ''pop'', gs_AvgDanceability = 1 / 2, gs_AvgPopularity = 60,
             gs_AvgSpeechiness = 1 / 2, gs_SongCount = 1, gs_Percentage = 50\<rparr>,
            \<lparr>gs_Genre = ''rock'', gs_AvgDanceability = 1 / 2, gs_AvgPopularity = 60,
             gs_AvgSpeechiness = 1 / 2, gs_SongCount = 1, gs_Percentage = 50\<rparr>])"
  by (simp add: get_genre_statistics_def validate_year_def nearest_years_def LIMIT_def
      year_counts_def group_by_def unique_def two_genre_store_def example_song_def
      genre_statistics_query_def GenreSongs_def AVG_def ROUND_def)

text \<open>
  C2 (amended). In the result of the genre statistics of a year, the Percentage of a
  genre is its song count times 100 divided by the sum of the song counts of all genres
  of that year, rounded to 1 decimal place. That sum is the number of (song, genre)
  links of the year's songs: a song with several genres is counted once per genre and a
  song with no genre is not counted, so it is not the number of songs of the year.
\<close>

theorem C2_percentage_of_genre_links:
  assumes "get_genre_statistics y st min_songs = (printed, Some df)" and "r \<in> set df"
  shows "gs_SongCount r = length [x \<leftarrow> GenreSongs st y. fst x = gs_Genre r] \<and>
         sum_list (map gs_SongCount df) = length (GenreSongs st y) \<and>
         gs_Percentage r =
           ROUND (real (gs_SongCount r) * 100 / real (sum_list (map gs_SongCount df))) 1"
proof -
  from assms(1) have df: "df = genre_statistics_query st y"
    by (auto simp add: get_genre_statistics_def Let_def split: if_splits)
  with assms(2) have "r \<in> set (genre_statistics_query st y)"
    by simp
  from genre_statistics_query_row [OF this] genre_statistics_query_total [of st y]
  show ?thesis
    by (simp add: df)
qed


theorem C2_percentage_of_genre_links_witness:
  "get_genre_statistics 2000 two_genre_store 10 =
     (LimitedData 1 [],
      Some [\<lparr>gs_Genre = ''pop'', gs_AvgDanceability = 1 / 2, gs_AvgPopularity = 60,
             gs_AvgSpeechiness = 1 / 2, gs_SongCount = 1, gs_Percentage = 50\<rparr>,
            \<lparr>gs_Genre = ''rock'', gs_AvgDanceability = 1 / 2, gs_AvgPopularity = 60,
             gs_AvgSpeechiness = 1 / 2, gs_SongCount = 1, gs_Percentage = 50\<rparr>]) \<and>
   length (GenreSongs two_genre_store 2000) = 2 \<and>
   ROUND (real 1 * 100 / real 2) 1 = 50"
proof -
  let ?pop = "\<lparr>gs_Genre = ''pop'', gs_AvgDanceability = 1 / 2, gs_AvgPopularity = 60,
               gs_AvgSpeechiness = 1 / 2, gs_SongCount = 1, gs_Percentage = 50\<rparr>"
  let ?rock = "\<lparr>gs_Genre = ''rock'', gs_AvgDanceability = 1 / 2, gs_AvgPopularity = 60,
                gs_AvgSpeechiness = 1 / 2, gs_SongCount = 1, gs_Percentage = 50\<rparr>"
  have mem: "?pop \<in> set [?pop, ?rock]"
    by simp
  note links = C2_percentage_of_genre_links [OF two_genre_statistics mem,
      THEN conjunct2, THEN conjunct1, symmetric]
  have "length (GenreSongs two_genre_store 2000) = 2"
    using links by simp
  moreover have "ROUND (real 1 * 100 / real 2) 1 = 50"
    by (simp add: ROUND_def)
  ultimately show ?thesis
    using two_genre_statistics by simp
qed

text \<open>
  The claim as stated fails: the year 2000 of this store has one song, which carries the
  genres pop and rock. Each genre has song count 1 and Percentage 50.0, where
  1 * 100 / (number of songs of the year) is 100.0.
\<close>

theorem C2_counterexample:
  "length [s \<leftarrow> Song two_genre_store. Year s = 2000] = 1 \<and>
   map gs_SongCount
     (case snd (get_genre_statistics 2000 two_genre_store 10) of None \<Rightarrow> [] | Some df \<Rightarrow> df) =
     [1, 1] \<and>
   map gs_Percentage
     (case snd (get_genre_statistics 2000 two_genre_store 10) of None \<Rightarrow> [] | Some df \<Rightarrow> df) =
     [50, 50] \<and>
   ROUND (real 1 * 100 / real (length [s \<leftarrow> Song two_genre_store. Year s = 2000])) 1 = 100"
  by (simp add: two_genre_statistics) (simp add: two_genre_store_def example_song_def ROUND_def)


section \<open>Claims about the popularity of an artist by genre\<close>










section \<open>Claims about the loader\<close>

lemma insert_names_ok:
  "distinct ks \<Longrightarrow> None \<notin> set ks \<Longrightarrow> set ks \<inter> Some ` snd ` set tbl = {} \<Longrightarrow>
   \<exists>tbl' m'. insert_names ks (tbl, m) = Inr (tbl', m') \<and>
     (\<forall>k \<in> set ks. \<exists>i. m' k = Some i \<and> length tbl < i) \<and>
     (\<forall>k. k \<notin> set ks \<longrightarrow> m' k = m k) \<and>
     inj_on m' (set ks) \<and>
     map (Some \<circ> snd) tbl' = map (Some \<circ> snd) tbl @ ks"
proof (induction ks arbitrary: tbl m)
  case Nil
  then show ?case by simp
next
  case (Cons k ks)
  from Cons.prems obtain n where k: "k = Some n"
    by (cases k) auto
  let ?tbl = "tbl @ [(Suc (length tbl), n)]"
  let ?m = "m(k \<mapsto> Suc (length tbl))"
  from Cons.prems k have n: "k \<notin> set ks" "n \<notin> snd ` set tbl" and d: "distinct ks"
    and nn: "None \<notin> set ks"
    by auto
  from Cons.prems k have "set ks \<inter> Some ` snd ` set ?tbl = {}"
    by auto
  from Cons.IH [OF d nn this, of ?m] obtain tbl' m' where
    run: "insert_names ks (?tbl, ?m) = Inr (tbl', m')" and
    new: "\<forall>x \<in> set ks. \<exists>i. m' x = Some i \<and> length ?tbl < i" and
    old: "\<forall>x. x \<notin> set ks \<longrightarrow> m' x = ?m x" and
    inj: "inj_on m' (set ks)" and
    names: "map (Some \<circ> snd) tbl' = map (Some \<circ> snd) ?tbl @ ks"
    by blast
  have step: "insert_names (k # ks) (tbl, m) = Inr (tbl', m')"
    using n run k by (simp add: Let_def)
  from old n have mk: "m' k = Some (Suc (length tbl))"
    by simp
  have "\<forall>x \<in> set (k # ks). \<exists>i. m' x = Some i \<and> length tbl < i"
    using new mk by fastforce
  moreover have "\<forall>x. x \<notin> set (k # ks) \<longrightarrow> m' x = m x"
    using old by simp
  moreover have "inj_on m' (set (k # ks))"
    using inj new mk by (fastforce simp add: inj_on_def)
  moreover have "map (Some \<circ> snd) tbl' = map (Some \<circ> snd) tbl @ k # ks"
    using names k by simp
  ultimately show ?case
    using step by blast
qed

lemma insert_names_not_null:
  "insert_names ks (tbl, m) = Inr res \<Longrightarrow> None \<notin> set ks"
proof (induction ks arbitrary: tbl m)
  case Nil
  then show ?case by simp
next
  case (Cons k ks)
  then show ?case
    by (cases k) (auto simp add: Let_def split: if_splits)
qed

lemma insert_song_genres_ok:
  "distinct gs \<Longrightarrow> inj_on gmap (Some ` set gs) \<Longrightarrow> \<forall>g \<in> set gs. \<exists>i. gmap (Some g) = Some i \<Longrightarrow>
   \<forall>g \<in> set gs. \<forall>i. gmap (Some g) = Some i \<longrightarrow> (sid, i) \<notin> set sg \<Longrightarrow>
   insert_song_genres gmap sid gs sg = Inr (sg @ map (\<lambda>g. (sid, the (gmap (Some g)))) gs)"
proof (induction gs arbitrary: sg)
  case Nil
  then show ?case by simp
next
  case (Cons g gs)
  from Cons.prems obtain i where i: "gmap (Some g) = Some i"
    by auto
  with Cons.prems have fresh: "(sid, i) \<notin> set sg"
    by auto
  have "\<forall>g' \<in> set gs. \<forall>i'. gmap (Some g') = Some i' \<longrightarrow> (sid, i') \<notin> set (sg @ [(sid, i)])"
  proof (intro ballI allI impI)
    fix g' i'
    assume g': "g' \<in> set gs" and i': "gmap (Some g') = Some i'"
    from Cons.prems g' have "g' \<noteq> g"
      by auto
    with Cons.prems(2) g' i i' have "i' \<noteq> i"
      by (auto simp add: inj_on_def)
    moreover from Cons.prems(4) g' i' have "(sid, i') \<notin> set sg"
      by auto
    ultimately show "(sid, i') \<notin> set (sg @ [(sid, i)])"
      by simp
  qed
  moreover from Cons.prems have "distinct gs" "inj_on gmap (Some ` set gs)"
    "\<forall>g \<in> set gs. \<exists>i. gmap (Some g) = Some i"
    by (auto simp add: inj_on_def)
  ultimately have "insert_song_genres gmap sid gs (sg @ [(sid, i)]) =
      Inr ((sg @ [(sid, i)]) @ map (\<lambda>g. (sid, the (gmap (Some g)))) gs)"
    by (rule Cons.IH [rotated 3])
  with i fresh show ?case
    by simp
qed

lemma insert_song_genres_distinct:
  "insert_song_genres gmap sid gs sg = Inr sg' \<Longrightarrow> distinct sg \<Longrightarrow> distinct sg'"
  by (induction gs arbitrary: sg) (auto split: option.splits if_splits)

lemma insert_songs_ok:
  "\<forall>r \<in> set rows. loadable amap gmap r \<Longrightarrow> \<forall>(a, b) \<in> set sg. a \<le> length songs \<Longrightarrow>
   distinct sg \<Longrightarrow>
   \<exists>songs' sg'. insert_songs amap gmap rows (songs, sg) = Inr (songs', sg') \<and>
     length songs' = length songs + length rows \<and>
     length sg' = length sg + (\<Sum>r\<leftarrow>rows. length (genres r)) \<and>
     distinct sg'"
proof (induction rows arbitrary: songs sg)
  case Nil
  then show ?case by simp
next
  case (Cons r rows)
  from Cons.prems(1) have r: "loadable amap gmap r"
    by simp
  then obtain a t e p d s where a: "amap (artist r) = Some a" and
    cells: "song r = Some t" "explicit r = Some e" and
    num: "popularity r = Some p" "danceability r = Some d" "speechiness r = Some s"
    by (auto simp add: loadable_def)
  let ?sid = "Suc (length songs)"
  let ?new = "\<lparr>ID = ?sid, Title = t, Duration = duration r, Explicit = e,
               Year = year r, Popularity = p, Danceability = d, Speechiness = s,
               ArtistID = a\<rparr>"
  let ?sg = "sg @ map (\<lambda>g. (?sid, the (gmap (Some g)))) (genres r)"
  have fresh: "\<forall>g \<in> set (genres r). \<forall>i. gmap (Some g) = Some i \<longrightarrow> (?sid, i) \<notin> set sg"
    using Cons.prems(2) by fastforce
  from r have links: "insert_song_genres gmap ?sid (genres r) sg = Inr ?sg"
    by (intro insert_song_genres_ok fresh) (simp_all add: loadable_def)
  from insert_song_genres_distinct [OF links Cons.prems(3)] have d: "distinct ?sg" .
  have bound: "\<forall>(a, b) \<in> set ?sg. a \<le> length (songs @ [?new])"
    using Cons.prems(2) by fastforce
  from Cons.prems(1) have "\<forall>r \<in> set rows. loadable amap gmap r"
    by simp
  from Cons.IH [OF this bound d] obtain songs' sg' where
    run: "insert_songs amap gmap rows (songs @ [?new], ?sg) = Inr (songs', sg')" and
    len: "length songs' = length (songs @ [?new]) + length rows" and
    lnk: "length sg' = length ?sg + (\<Sum>r\<leftarrow>rows. length (genres r))" and
    dst: "distinct sg'"
    by blast
  have "insert_songs amap gmap (r # rows) (songs, sg) = Inr (songs', sg')"
    using a cells num links run by (simp add: Let_def)
  with len lnk dst show ?case
    by simp
qed

lemma filter_mask_numeric:
  "filter_mask r \<Longrightarrow>
   \<exists>p d s. popularity r = Some p \<and> danceability r = Some d \<and> speechiness r = Some s"
  by (auto simp add: filter_mask_iff)

lemma notna_simps: "notna (Some x)" "\<not> notna None"
  by (simp_all add: notna_def)

lemma clean_genres_examples:
  "clean_genres (Some ''pop, pop'') = [''pop'', ''pop'']"
  "clean_genres (Some ''pop, rock'') = [''pop'', ''rock'']"
  "clean_genres (Some ''pop'') = [''pop'']"
  "clean_genres (Some ''set()'') = []"
  "clean_genres None = []"
  by (simp_all add: clean_genres_def strip_def isspace_def whitespace_def)

lemma example_row_kept: "51 \<le> p \<Longrightarrow> filter_mask (numeric_row (example_row a y p genre))"
  by (simp add: example_row_def numeric_row_def to_numeric_def filter_mask_def notna_simps
      gt_def between_def)

lemma example_record_kept:
  "filter_mask (numeric_row (example_record (Number 51) (Number (21 / 100)) (Number (1 / 2))))"
  by (simp add: example_record_def numeric_row_def to_numeric_def filter_mask_def notna_simps
      gt_def between_def)

lemma artist_numeric_row [simp]: "artist (numeric_row r) = artist r"
  by (simp add: numeric_row_def)

lemma artist_example_row [simp]: "artist (example_row a y p genre) = Some a"
  by (simp add: example_row_def)

lemma speechiness_example_row [simp]: "\<not> is_str (speechiness (example_row a y p genre))"
  by (simp add: example_row_def is_str_def)

lemma filter_loader_examples:
  "filter_data loader_examples = Inr (map numeric_row loader_examples)"
  by (simp add: filter_data_def loader_examples_def two_genre_record_def example_row_kept
      example_record_kept unique_def Let_def)
    (simp add: example_record_def is_str_def)

lemma load_examples:
  "create_and_populate_database (map numeric_row loader_examples) = Inr loaded_store"
  by (simp add: create_and_populate_database_def loader_examples_def two_genre_record_def
      example_row_def example_record_def numeric_row_def to_numeric_def loaded_store_def
      example_song_def clean_genres_examples unique_def Let_def)

text \<open>
  A load that succeeds had no record with an empty \<open>artist\<close>, \<open>song\<close> or \<open>explicit\<close>
  cell, which the \<open>NOT NULL\<close> constraints refuse, and no record with a repeated genre:
  the second link of the record's song to the genre violates the primary key of
  \<open>SongGenre\<close>.
\<close>

lemma insert_song_genres_repeated:
  "g \<in> set gs \<Longrightarrow> gmap (Some g) = Some i \<Longrightarrow> (sid, i) \<in> set sg \<Longrightarrow>
   \<exists>e. insert_song_genres gmap sid gs sg = Inl e"
  by (induction gs arbitrary: sg) (auto split: option.splits)

lemma insert_song_genres_needs_distinct:
  "insert_song_genres gmap sid gs sg = Inr sg' \<Longrightarrow> distinct gs"
proof (induction gs arbitrary: sg)
  case Nil
  then show ?case by simp
next
  case (Cons g gs)
  from Cons.prems obtain i where i: "gmap (Some g) = Some i" and
    run: "insert_song_genres gmap sid gs (sg @ [(sid, i)]) = Inr sg'"
    by (auto split: option.splits if_splits)
  have "g \<notin> set gs"
  proof
    assume "g \<in> set gs"
    then have "\<exists>e. insert_song_genres gmap sid gs (sg @ [(sid, i)]) = Inl e"
      using i by (intro insert_song_genres_repeated [where g = g and i = i]) simp_all
    with run show False by simp
  qed
  with Cons.IH [OF run] show ?case
    by simp
qed

lemma insert_songs_needs:
  "insert_songs amap gmap rows st = Inr st' \<Longrightarrow> r \<in> set rows \<Longrightarrow>
   song r \<noteq> None \<and> explicit r \<noteq> None \<and> distinct (genres r)"
proof (induction rows arbitrary: st)
  case Nil
  then show ?case by simp
next
  case (Cons row rows)
  obtain songs sg where st: "st = (songs, sg)"
    by (cases st)
  from Cons.prems(1) obtain st1 sg1 where
    links: "insert_song_genres gmap (Suc (length songs)) (genres row) sg = Inr sg1" and
    cells: "song row \<noteq> None" "explicit row \<noteq> None" and
    run: "insert_songs amap gmap rows st1 = Inr st'"
    unfolding st by (auto simp add: Let_def split: option.splits sum.splits)
  from Cons.prems(2) have "r = row \<or> r \<in> set rows"
    by simp
  then show ?case
  proof
    assume "r = row"
    with insert_song_genres_needs_distinct [OF links] cells show ?thesis by simp
  next
    assume "r \<in> set rows"
    with Cons.IH [OF run] show ?thesis by simp
  qed
qed

lemma load_needs_complete_records:
  assumes "create_and_populate_database df = Inr st" and "r \<in> set df"
  shows "artist r \<noteq> None \<and> song r \<noteq> None \<and> explicit r \<noteq> None \<and> distinct (genres r)"
proof -
  from assms(1) obtain res amap gmap st' where
    names: "insert_names (unique (map artist df)) ([], Map.empty) = Inr res" and
    songs: "insert_songs amap gmap df ([], []) = Inr st'"
    by (auto simp add: create_and_populate_database_def Let_def split: sum.splits)
  from insert_names_not_null [OF names] assms(2) have "artist r \<noteq> None"
    by force
  with insert_songs_needs [OF songs assms(2)] show ?thesis
    by simp
qed

text \<open>
  The stores used as examples below are what the loader makes of filtered records.
\<close>

lemma clean_Pop: "clean_genres (Some ''Pop'') = [''Pop'']"
  by (simp add: clean_genres_def strip_def isspace_def whitespace_def)

lemma filter_ranking_records:
  "filter_data (ranking_records ''Average'') = Inr (map numeric_row (ranking_records ''Average''))"
  by (simp add: filter_data_def ranking_records_def example_row_kept unique_def Let_def)

lemma ranking_store_loaded:
  "create_and_populate_database (map numeric_row (ranking_records ''Average'')) =
     Inr (ranking_store ''Average'')"
  by (simp add: create_and_populate_database_def ranking_records_def example_row_def
      numeric_row_def to_numeric_def clean_Pop unique_def ranking_store_def example_song_def
      Let_def)

lemma filter_west_records:
  "filter_data west_records = Inr (map numeric_row west_records)"
  by (simp add: filter_data_def west_records_def example_row_kept unique_def Let_def)

lemma west_store_loaded:
  "create_and_populate_database (map numeric_row west_records) = Inr west_store"
  by (simp add: create_and_populate_database_def west_records_def example_row_def
      numeric_row_def to_numeric_def clean_Pop unique_def west_store_def example_song_def
      Let_def)

lemma filter_two_genre_record:
  "filter_data [two_genre_record] = Inr [numeric_row two_genre_record]"
  by (simp add: filter_data_def two_genre_record_def example_row_kept unique_def Let_def)

lemma two_genre_store_loaded:
  "create_and_populate_database [numeric_row two_genre_record] = Inr two_genre_store"
  by (simp add: create_and_populate_database_def two_genre_record_def example_row_def
      numeric_row_def to_numeric_def clean_genres_examples unique_def two_genre_store_def
      example_song_def Let_def)


text \<open>
  C1 (amended). For every record set of N records that \<open>filter_data\<close> returned, in
  which no record lists the same genre twice and no record has an empty \<open>artist\<close>,
  \<open>song\<close> or \<open>explicit\<close> cell, the load succeeds and produces exactly N Song rows and
  exactly as many SongGenre rows as the records have genres in total, with no
  (song, genre) pair twice. The cleaning and the load do not remove a repeated genre of
  a record.
\<close>

theorem C1_load_counts:
  assumes "filter_data dfSongs = Inr df"
    and "\<forall>r \<in> set df. artist r \<noteq> None \<and> song r \<noteq> None \<and> explicit r \<noteq> None"
    and "\<forall>r \<in> set df. distinct (genres r)"
  shows "\<exists>st. create_and_populate_database df = Inr st \<and>
           length (Song st) = length df \<and>
           length (SongGenre st) = (\<Sum>r\<leftarrow>df. length (genres r)) \<and>
           length (SongGenre st) = (\<Sum>r\<leftarrow>df. card (set (genres r))) \<and>
           distinct (SongGenre st) \<and>
           map (Some \<circ> snd) (Artist st) = unique (map artist df)"
proof -
  from assms(2) have "None \<notin> set (unique (map artist df))"
    by auto
  from insert_names_ok [of "unique (map artist df)" "[]" Map.empty] this
  obtain artists amap where
    a_run: "insert_names (unique (map artist df)) ([], Map.empty) = Inr (artists, amap)" and
    a_some: "\<forall>n \<in> set (map artist df). \<exists>i. amap n = Some i" and
    a_names: "map (Some \<circ> snd) artists = unique (map artist df)"
    by fastforce
  let ?gs = "map Some (unique (concat (map genres df)))"
  have "distinct ?gs" and "None \<notin> set ?gs"
    by (auto simp add: distinct_map)
  from insert_names_ok [of ?gs "[]" Map.empty] this
  obtain genre_rows gmap where
    g_run: "insert_names ?gs ([], Map.empty) = Inr (genre_rows, gmap)" and
    g_some: "\<forall>k \<in> set ?gs. \<exists>i. gmap k = Some i" and
    g_inj: "inj_on gmap (set ?gs)"
    by fastforce
  have "loadable amap gmap r" if "r \<in> set df" for r
  proof -
    from that have sub: "Some ` set (genres r) \<subseteq> set ?gs"
      by auto
    with g_inj have "inj_on gmap (Some ` set (genres r))"
      by (rule inj_on_subset)
    moreover from sub g_some have "\<forall>g \<in> set (genres r). \<exists>i. gmap (Some g) = Some i"
      by auto
    moreover from that a_some have "\<exists>a. amap (artist r) = Some a"
      by simp
    moreover from that assms(2) have "\<exists>t e. song r = Some t \<and> explicit r = Some e"
      by auto
    moreover from filter_data_kept_numeric [OF assms(1) that]
    have "\<exists>p d s. popularity r = Some p \<and> danceability r = Some d \<and> speechiness r = Some s"
      by (rule filter_mask_numeric)
    ultimately show ?thesis
      using that assms(3) by (simp add: loadable_def)
  qed
  then have "\<forall>r \<in> set df. loadable amap gmap r"
    by blast
  from insert_songs_ok [OF this, of "[]" "[]"] obtain songs sg where
    s_run: "insert_songs amap gmap df ([], []) = Inr (songs, sg)" and
    s_len: "length songs = length df" and
    s_lnk: "length sg = (\<Sum>r\<leftarrow>df. length (genres r))" and
    s_dst: "distinct sg"
    by auto
  have "(\<Sum>r\<leftarrow>df. length (genres r)) = (\<Sum>r\<leftarrow>df. card (set (genres r)))"
    using assms(3) by (intro arg_cong [where f = sum_list] map_cong refl) (simp add: distinct_card)
  with a_run g_run s_run s_len s_lnk s_dst a_names show ?thesis
    by (simp add: create_and_populate_database_def Let_def)
qed


theorem C1_load_counts_witness:
  "filter_data loader_examples = Inr (map numeric_row loader_examples) \<and>
   list_all (\<lambda>r. artist r \<noteq> None \<and> song r \<noteq> None \<and> explicit r \<noteq> None)
     (map numeric_row loader_examples) \<and>
   list_all (\<lambda>r. distinct (genres r)) (map numeric_row loader_examples) \<and>
   create_and_populate_database (map numeric_row loader_examples) = Inr loaded_store \<and>
   length (Song loaded_store) = 2 \<and> length (SongGenre loaded_store) = 3"
proof -
  have c: "\<forall>r \<in> set (map numeric_row loader_examples).
             artist r \<noteq> None \<and> song r \<noteq> None \<and> explicit r \<noteq> None"
    by (auto simp add: loader_examples_def two_genre_record_def example_row_def
        example_record_def numeric_row_def)
  have d: "\<forall>r \<in> set (map numeric_row loader_examples). distinct (genres r)"
    by (simp add: loader_examples_def two_genre_record_def example_row_def example_record_def
        numeric_row_def clean_genres_examples)
  from C1_load_counts [OF filter_loader_examples c d] load_examples
  have "length (Song loaded_store) = length (map numeric_row loader_examples)"
    and "length (SongGenre loaded_store) =
           (\<Sum>r\<leftarrow>map numeric_row loader_examples. length (genres r))"
    by auto
  then have "length (Song loaded_store) = 2" and "length (SongGenre loaded_store) = 3"
    by (simp_all add: loader_examples_def two_genre_record_def example_row_def
        example_record_def numeric_row_def clean_genres_examples)
  with filter_loader_examples c d load_examples show ?thesis
    by (simp add: list_all_iff)
qed

text \<open>
  The claim as stated fails: the genre field \<open>pop, pop\<close> is cleaned to the list
  \<open>pop\<close>, \<open>pop\<close>, the record passes the filter, and the load of this one record
  raises \<open>IntegrityError\<close> instead of producing one Song row and one SongGenre row.
\<close>

theorem C1_counterexample:
  "genres dup_genre_record = [''pop'', ''pop''] \<and>
   filter_data [dup_genre_record] = Inr [numeric_row dup_genre_record] \<and>
   create_and_populate_database [numeric_row dup_genre_record] = Inl IntegrityError"
  by (simp add: dup_genre_record_def filter_data_def example_row_kept unique_def Let_def)
    (simp add: example_row_def numeric_row_def to_numeric_def clean_genres_examples
      create_and_populate_database_def unique_def Let_def)

text \<open>
  So does a record without a title: the filter does not look at the \<open>song\<close> column,
  and the load of the record raises \<open>IntegrityError\<close>.
\<close>

lemma load_untitled_record:
  "filter_data [untitled_record] = Inr [numeric_row untitled_record] \<and>
   create_and_populate_database [numeric_row untitled_record] = Inl IntegrityError"
  by (simp add: untitled_record_def filter_data_def example_row_def numeric_row_def
      to_numeric_def clean_genres_examples is_str_def filter_mask_def notna_simps gt_def
      between_def create_and_populate_database_def unique_def Let_def)

section \<open>Claims about the suggestions for an unknown artist\<close>

lemma split_kanye_west: "split_ws (lower ''kanye west'') = [''kanye'', ''west'']"
  by (simp add: split_ws_def lower_def lower_char_def isspace_def whitespace_def)

lemma like_examples:
  "like ''%kanye%'' ''Kanye West''"
  "like ''%west%'' ''Kanye West''"
  "\<not> like ''%kanye%'' ''West''"
  "like ''%west%'' ''West''"
  by code_simp+


text \<open>
  \<open>COUNT(*) as matches\<close> counts the rows of one \<open>Name\<close> group. Names are unique in
  \<open>Artist\<close>, so every group has one row, \<open>matches\<close> is 1 for every name, and the
  suggestions come in order of name length alone.
\<close>

lemma unique_distinct: "distinct xs \<Longrightarrow> unique xs = xs"
  by (simp add: unique_def distinct_remdups_id)

lemma group_by_id_distinct:
  assumes "distinct xs"
  shows "map (\<lambda>(n, g). (n, length g)) (group_by id xs) = map (\<lambda>n. (n, 1)) xs"
proof -
  have "length [x \<leftarrow> xs. x = n] = 1" if "n \<in> set xs" for n
    using assms that by (induction xs) (auto simp add: filter_empty_conv)
  then show ?thesis
    by (simp add: group_by_def unique_distinct [OF assms] comp_def)
qed

lemma select_names: "[n. (i, n) \<leftarrow> xs, P n] = filter P (map snd xs)"
  by (induction xs) auto

lemma similar_artists_by_length:
  assumes "distinct (map snd (Artist st))"
    and "[n. (i, n) \<leftarrow> Artist st, n = name] = []"
    and "get_similar_artists name st limit = Inr suggestions"
  shows "sorted (map length suggestions)"
proof -
  define rows where
    "rows = [n. (i, n) \<leftarrow> Artist st,
               \<exists>p \<in> set (map (\<lambda>part. ''%'' @ part @ ''%'') (split_ws (lower name))). like p n]"
  define key :: "string \<times> nat \<Rightarrow> int \<times> nat" where
    "key = (\<lambda>(n, matches). (- int matches, length n))"
  define ordered where "ordered = sort_key key (map (\<lambda>n. (n, 1)) rows)"
  have "distinct rows"
    unfolding rows_def select_names using assms(1) by (rule distinct_filter)
  then have groups: "map (\<lambda>(n, g). (n, length g)) (group_by id rows) = map (\<lambda>n. (n, 1)) rows"
    by (rule group_by_id_distinct)
  have "suggestions =
      map fst (LIMIT limit (sort_key key (map (\<lambda>(n, g). (n, length g)) (group_by id rows))))"
    using assms(2,3)
    unfolding get_similar_artists_def Let_def rows_def [symmetric] key_def [symmetric]
    by (auto split: if_splits)
  then have sugg: "suggestions = map fst (LIMIT limit ordered)"
    unfolding groups ordered_def .
  have "sorted (map length (map fst ordered))"
  proof -
    have "sorted (map key ordered)"
      unfolding ordered_def by (rule sorted_sort_key)
    moreover have "\<forall>x \<in> set ordered. snd x = 1"
      by (auto simp add: ordered_def)
    ultimately show ?thesis
      by (induction ordered) (auto simp add: key_def case_prod_unfold less_eq_prod_def)
  qed
  then show ?thesis
    unfolding sugg
    by (auto simp add: LIMIT_def take_map [symmetric] sorted_wrt_take simp del: take_map)
qed


text \<open>
  C4, at an input where the code departs from it. The store is loaded from two filtered
  records, of the artists \<open>Kanye West\<close> and \<open>West\<close>. The input \<open>kanye west\<close> has no
  exact match; the stored name \<open>Kanye West\<close> contains both of its parts and the stored
  name \<open>West\<close> one of them. Ordered by the number of matching parts, \<open>Kanye West\<close> would
  come first; \<open>get_similar_artists\<close> returns \<open>West\<close> first, and \<open>West\<close> alone
  with a limit of 1.
\<close>

theorem C4_suggestions_ignore_match_count:
  "filter_data west_records = Inr (map numeric_row west_records) \<and>
   create_and_populate_database (map numeric_row west_records) = Inr west_store \<and>
   [n. (i, n) \<leftarrow> Artist west_store, n = ''kanye west''] = [] \<and>
   length [p \<leftarrow> split_ws (lower ''kanye west''). like (''%'' @ p @ ''%'') ''Kanye West''] = 2 \<and>
   length [p \<leftarrow> split_ws (lower ''kanye west''). like (''%'' @ p @ ''%'') ''West''] = 1 \<and>
   get_similar_artists ''kanye west'' west_store 3 = Inr [''West'', ''Kanye West''] \<and>
   get_similar_artists ''kanye west'' west_store 1 = Inr [''West'']"
  unfolding west_store_loaded filter_west_records
  by (simp add: get_similar_artists_def split_kanye_west west_store_def LIMIT_def
      group_by_def unique_def like_examples del: like.simps)

section \<open>Claims about the ranking of the top artists\<close>

lemma join_of_key:
  "start_year \<le> y \<Longrightarrow> y \<le> end_year \<Longrightarrow>
   map snd [x \<leftarrow> artist_year_join st start_year end_year. (\<lambda>(a, s). (a, Year s)) x = (a, y)] =
     artist_year_songs st a y"
proof -
  assume y: "start_year \<le> y" "y \<le> end_year"
  have inner: "map snd [x \<leftarrow> concat (map (\<lambda>(aid, a). if ArtistID s = aid then
                  (if start_year \<le> Year s \<and> Year s \<le> end_year then [(a, s)] else []) else []) as).
                  (\<lambda>(a, s). (a, Year s)) x = (a, y)] =
        concat (map (\<lambda>(aid, n). if ArtistID s = aid then
                  (if n = a then (if Year s = y then [s] else []) else []) else []) as)"
    for s and as :: "(nat \<times> string) list"
    using y by (induction as) auto
  have "map snd [x \<leftarrow> concat (map (\<lambda>s. concat (map (\<lambda>(aid, a). if ArtistID s = aid then
                  (if start_year \<le> Year s \<and> Year s \<le> end_year then [(a, s)] else []) else [])
                  (Artist st))) ss).
                  (\<lambda>(a, s). (a, Year s)) x = (a, y)] =
        concat (map (\<lambda>s. concat (map (\<lambda>(aid, n). if ArtistID s = aid then
                  (if n = a then (if Year s = y then [s] else []) else []) else [])
                  (Artist st))) ss)" for ss
    by (induction ss) (simp_all add: inner)
  then show ?thesis
    by (simp add: artist_year_join_def artist_year_songs_def)
qed


lemma artist_year_join_range:
  "x \<in> set (artist_year_join st start_year end_year) \<Longrightarrow>
   start_year \<le> Year (snd x) \<and> Year (snd x) \<le> end_year"
  by (auto simp add: artist_year_join_def)

lemma group_nonempty: "k \<in> key ` set xs \<Longrightarrow> [x \<leftarrow> xs. key x = k] \<noteq> []"
  by (auto simp add: filter_empty_conv)

lemma group_key_iff: "(k \<in> key ` set xs) = ([x \<leftarrow> xs. key x = k] \<noteq> [])"
  by (auto simp add: filter_empty_conv)

lemma df_rows:
  "set (map (add_rank_value weights) (artist_year_query st start_year end_year)) =
     {ranked_row st weights a y | a y.
        start_year \<le> y \<and> y \<le> end_year \<and> artist_year_songs st a y \<noteq> []}"
  (is "?L = ?R")
proof -
  define J where "J = artist_year_join st start_year end_year"
  define key :: "string \<times> song_row \<Rightarrow> string \<times> int" where "key = (\<lambda>(a, s). (a, Year s))"
  define h :: "(string \<times> int) \<times> (string \<times> song_row) list \<Rightarrow> string \<times> int \<times> nat \<times> real"
    where "h = (\<lambda>((a, y), rows). (a, y, length rows, ROUND (AVG (map (Popularity \<circ> snd) rows)) 2))"
  define G where "G = group_by key J"
  have songs: "map snd [x \<leftarrow> J. key x = (a, y)] = artist_year_songs st a y"
    if "start_year \<le> y" "y \<le> end_year" for a y
    unfolding J_def key_def by (rule join_of_key [OF that])
  have row: "add_rank_value weights (h ((a, y), [x \<leftarrow> J. key x = (a, y)])) =
      ranked_row st weights a y"
    if "start_year \<le> y" "y \<le> end_year" for a y
  proof -
    have "map (Popularity \<circ> snd) [x \<leftarrow> J. key x = (a, y)] =
          map Popularity (map snd [x \<leftarrow> J. key x = (a, y)])"
      by simp
    moreover have "length [x \<leftarrow> J. key x = (a, y)] =
          length (map snd [x \<leftarrow> J. key x = (a, y)])"
      by simp
    ultimately show ?thesis
      unfolding songs [OF that] h_def
      by (simp add: add_rank_value_def ranked_row_def Let_def)
  qed
  have range: "start_year \<le> y \<and> y \<le> end_year" if "(a, y) \<in> key ` set J" for a y
  proof -
    from that obtain x where "x \<in> set J" and "key x = (a, y)"
      by auto
    with artist_year_join_range [of x st start_year end_year] show ?thesis
      by (auto simp add: J_def key_def case_prod_unfold)
  qed
  have keys: "((a, y) \<in> key ` set J) =
      (start_year \<le> y \<and> y \<le> end_year \<and> artist_year_songs st a y \<noteq> [])" for a y
  proof (cases "start_year \<le> y \<and> y \<le> end_year")
    case True
    then have "(map snd [x \<leftarrow> J. key x = (a, y)] \<noteq> []) = (artist_year_songs st a y \<noteq> [])"
      by (simp add: songs)
    with True show ?thesis
      by (simp add: group_key_iff)
  next
    case False
    with range [of a y] show ?thesis
      by blast
  qed
  have G: "set G = (\<lambda>k. (k, [x \<leftarrow> J. key x = k])) ` key ` set J"
    unfolding G_def by (rule set_group_by)
  have "\<forall>x \<in> set (map h G). (case x of (a, y, num_songs, avg) \<Rightarrow> num_songs > 0)"
  proof
    fix x
    assume "x \<in> set (map h G)"
    then obtain k where "k \<in> key ` set J" and "x = h (k, [x \<leftarrow> J. key x = k])"
      unfolding set_map G by blast
    with group_nonempty [of k key J] show "case x of (a, y, num_songs, avg) \<Rightarrow> num_songs > 0"
      by (simp add: h_def case_prod_unfold)
  qed
  then have having: "[(a, y, num_songs, avg) \<leftarrow> map h G. num_songs > 0] = map h G"
    by (rule filter_True)
  have "artist_year_query st start_year end_year =
      sort_key (\<lambda>(a, y, num_songs, avg). (y, - int num_songs)) (map h G)"
    unfolding artist_year_query_def J_def [symmetric] key_def [symmetric] h_def [symmetric]
      G_def [symmetric] having ..
  then have "set (artist_year_query st start_year end_year) = h ` set G"
    by simp
  then have L: "?L = (\<lambda>k. add_rank_value weights (h (k, [x \<leftarrow> J. key x = k]))) ` key ` set J"
    unfolding G by (simp add: image_image)
  show ?thesis
  proof (intro equalityI subsetI)
    fix r
    assume "r \<in> ?L"
    then obtain k where k: "k \<in> key ` set J" and
      r: "r = add_rank_value weights (h (k, [x \<leftarrow> J. key x = k]))"
      unfolding L by blast
    obtain a y where ay: "k = (a, y)"
      by (cases k)
    from k have "start_year \<le> y" "y \<le> end_year" "artist_year_songs st a y \<noteq> []"
      unfolding ay keys by simp_all
    moreover from this r have "r = ranked_row st weights a y"
      unfolding ay by (simp add: row)
    ultimately show "r \<in> ?R"
      by blast
  next
    fix r
    assume "r \<in> ?R"
    then obtain a y where range: "start_year \<le> y" "y \<le> end_year" and
      songs: "artist_year_songs st a y \<noteq> []" and r: "r = ranked_row st weights a y"
      by blast
    from range songs have "(a, y) \<in> key ` set J"
      by (simp add: keys)
    moreover from r row [OF range] have
      "r = add_rank_value weights (h ((a, y), [x \<leftarrow> J. key x = (a, y)]))"
      by simp
    ultimately show "r \<in> ?L"
      unfolding L by blast
  qed
qed


lemma AVG_constant: "vs \<noteq> [] \<Longrightarrow> \<forall>x \<in> set vs. x = v \<Longrightarrow> AVG vs = v"
proof -
  assume ne: "vs \<noteq> []" and all: "\<forall>x \<in> set vs. x = v"
  from all have "sum_list vs = real (length vs) * v"
    by (induction vs) (simp_all add: algebra_simps)
  with ne show ?thesis
    by (simp add: AVG_def)
qed

lemma map_of_graph: "map_of (map (\<lambda>a. (a, f a)) xs) a = (if a \<in> set xs then Some (f a) else None)"
  by (induction xs) auto

lemma pivot_table_eq:
  "pivot_table data =
     \<lparr>yd_columns = sort (remdups (map ta_Year data)),
      yd_rows = map (\<lambda>a. (a, map (pivot_cell data a) (sort (remdups (map ta_Year data)))))
                  (sort (remdups (map ta_Artist data)))\<rparr>"
  by (simp add: pivot_table_def pivot_cell_def Let_def)

lemma cell_at_pivot_table:
  "a \<in> ta_Artist ` set data \<Longrightarrow> y \<in> ta_Year ` set data \<Longrightarrow>
   cell_at (pivot_table data) a y = Some (pivot_cell data a y)"
  by (simp add: pivot_table_eq cell_at_def map_of_graph map_of_zip_map)

lemma map_of_set_loc:
  "label \<notin> fst ` set rows \<Longrightarrow>
   map_of (set_loc label vals rows) l = (if l = label then Some vals else map_of rows l)"
proof -
  assume fresh: "label \<notin> fst ` set rows"
  then have none: "map_of rows label = None"
    by (simp add: map_of_eq_None_iff)
  show ?thesis
  proof (cases "map_of rows l")
    case None
    with fresh none show ?thesis
      by (auto simp add: set_loc_def map_add_def)
  next
    case (Some cells)
    with fresh none show ?thesis
      by (auto simp add: set_loc_def map_add_def)
  qed
qed

lemma ranked_rows_of_key:
  assumes "df = map (add_rank_value weights) (artist_year_query st start_year end_year)"
  shows "\<forall>r \<in> set [r \<leftarrow> df. ta_Artist r = a \<and> ta_Year r = y]. r = ranked_row st weights a y"
    and "([r \<leftarrow> df. ta_Artist r = a \<and> ta_Year r = y] \<noteq> []) =
           (start_year \<le> y \<and> y \<le> end_year \<and> artist_year_songs st a y \<noteq> [])"
proof -
  have key: "ta_Artist (ranked_row st weights a' y') = a'" "ta_Year (ranked_row st weights a' y') = y'"
    for a' y'
    by (simp_all add: ranked_row_def Let_def)
  show "\<forall>r \<in> set [r \<leftarrow> df. ta_Artist r = a \<and> ta_Year r = y]. r = ranked_row st weights a y"
  proof
    fix r
    assume "r \<in> set [r \<leftarrow> df. ta_Artist r = a \<and> ta_Year r = y]"
    then have "r \<in> set df" and ay: "ta_Artist r = a" "ta_Year r = y"
      by simp_all
    then obtain a' y' where "r = ranked_row st weights a' y'"
      unfolding assms df_rows by blast
    with ay key show "r = ranked_row st weights a y"
      by simp
  qed
  show "([r \<leftarrow> df. ta_Artist r = a \<and> ta_Year r = y] \<noteq> []) =
           (start_year \<le> y \<and> y \<le> end_year \<and> artist_year_songs st a y \<noteq> [])"
  proof
    assume "[r \<leftarrow> df. ta_Artist r = a \<and> ta_Year r = y] \<noteq> []"
    then obtain r where "r \<in> set df" and ay: "ta_Artist r = a" "ta_Year r = y"
      by (auto simp add: filter_empty_conv)
    then obtain a' y' where "r = ranked_row st weights a' y'" and
      "start_year \<le> y' \<and> y' \<le> end_year \<and> artist_year_songs st a' y' \<noteq> []"
      unfolding assms df_rows by blast
    with ay key show "start_year \<le> y \<and> y \<le> end_year \<and> artist_year_songs st a y \<noteq> []"
      by simp
  next
    assume "start_year \<le> y \<and> y \<le> end_year \<and> artist_year_songs st a y \<noteq> []"
    then have "ranked_row st weights a y \<in> set df"
      unfolding assms df_rows by blast
    with key show "[r \<leftarrow> df. ta_Artist r = a \<and> ta_Year r = y] \<noteq> []"
      unfolding filter_empty_conv by blast
  qed
qed

lemma pivot_cell_rank_cell:
  assumes "df = map (add_rank_value weights) (artist_year_query st start_year end_year)"
    and "start_year \<le> y" and "y \<le> end_year"
  shows "pivot_cell df a y = rank_cell st weights a y"
proof (cases "artist_year_songs st a y = []")
  case True
  with ranked_rows_of_key(2) [OF assms(1), of a y] show ?thesis
    by (simp add: pivot_cell_def rank_cell_def)
next
  case False
  let ?rows = "[r \<leftarrow> df. ta_Artist r = a \<and> ta_Year r = y]"
  from False assms ranked_rows_of_key(2) [OF assms(1), of a y] have ne: "?rows \<noteq> []"
    by simp
  have "AVG (map ta_RankValue ?rows) = ta_RankValue (ranked_row st weights a y)"
  proof (rule AVG_constant)
    show "map ta_RankValue ?rows \<noteq> []"
      using ne by simp
    show "\<forall>x \<in> set (map ta_RankValue ?rows). x = ta_RankValue (ranked_row st weights a y)"
      using ranked_rows_of_key(1) [OF assms(1), of a y] by auto
  qed
  with ne False show ?thesis
    by (simp add: pivot_cell_def rank_cell_def ranked_row_def Let_def)
qed


lemma top_artists_of_member:
  assumes "t \<in> set (top_artists_of df)"
  shows "ts_Artist t \<in> ta_Artist ` set df"
    and "ts_RankValue t = sum_list (map ta_RankValue [r \<leftarrow> df. ta_Artist r = ts_Artist t])"
    and "ts_NumSongs t = sum_list (map ta_NumSongs [r \<leftarrow> df. ta_Artist r = ts_Artist t])"
    and "ts_AvgPopularity t = AVG (map ta_AvgPopularity [r \<leftarrow> df. ta_Artist r = ts_Artist t])"
proof -
  define summary where "summary = (\<lambda>a. (let rows = [r \<leftarrow> df. ta_Artist r = a]
                   in \<lparr>ts_Artist = a,
                       ts_RankValue = sum_list (map ta_RankValue rows),
                       ts_NumSongs = sum_list (map ta_NumSongs rows),
                       ts_AvgPopularity = AVG (map ta_AvgPopularity rows)\<rparr>))"
  have "top_artists_of df =
      take 5 (sort_key (\<lambda>r. - ts_RankValue r) (map summary (sort (remdups (map ta_Artist df)))))"
    by (simp add: top_artists_of_def summary_def)
  with assms have "t \<in> set (map summary (sort (remdups (map ta_Artist df))))"
    by (auto dest: in_set_takeD)
  then obtain a where a: "a \<in> ta_Artist ` set df" and t: "t = summary a"
    by auto
  from a t show "ts_Artist t \<in> ta_Artist ` set df"
    by (simp add: summary_def Let_def)
  from t show "ts_RankValue t = sum_list (map ta_RankValue [r \<leftarrow> df. ta_Artist r = ts_Artist t])"
    and "ts_NumSongs t = sum_list (map ta_NumSongs [r \<leftarrow> df. ta_Artist r = ts_Artist t])"
    and "ts_AvgPopularity t = AVG (map ta_AvgPopularity [r \<leftarrow> df. ta_Artist r = ts_Artist t])"
    by (simp_all add: summary_def Let_def)
qed

lemma column_means_pivot:
  assumes "j < length (yd_columns (pivot_table data))"
  shows "column_means (pivot_table data) ! j =
           nan_mean (map (\<lambda>a. pivot_cell data a (yd_columns (pivot_table data) ! j))
                       (sort (remdups (map ta_Artist data))))"
  using assms by (simp add: column_means_def pivot_table_eq comp_def)

text \<open>
  When no selected artist is named \<open>Average\<close>, the row of column means is appended and
  the output is as expected: every column is a year of the range; the cell of a
  selected artist and a year is empty exactly when the artist has no song in that year,
  and holds the rank value of the artist's songs of that year otherwise; the cell of
  the row \<open>Average\<close> is the mean of the cells of the selected artists that are not
  empty in that year.
\<close>

lemma get_top_artists_appended:
  assumes run: "get_top_artists start_year end_year weights st = Some (yearly, top_artists)"
    and free: "''Average'' \<notin> ts_Artist ` set top_artists"
    and y: "y \<in> set (yd_columns yearly)"
  shows "t \<in> set top_artists \<Longrightarrow>
           cell_at yearly (ts_Artist t) y = Some (rank_cell st weights (ts_Artist t) y)"
    and "cell_at yearly ''Average'' y =
           Some (nan_mean (map (\<lambda>a. rank_cell st weights a y)
                            (sort (remdups (map ts_Artist top_artists)))))"
    and "start_year \<le> y \<and> y \<le> end_year"
proof -
  define df where "df = map (add_rank_value weights) (artist_year_query st start_year end_year)"
  define data where "data = [r \<leftarrow> df. ta_Artist r \<in> ts_Artist ` set top_artists]"
  define yd where "yd = pivot_table data"
  from run have top: "top_artists = top_artists_of df"
    and yearly: "yearly = yd\<lparr>yd_rows := set_loc ''Average'' (column_means yd) (yd_rows yd)\<rparr>"
    by (auto simp add: get_top_artists_def Let_def df_def data_def yd_def split: if_splits)
  have artists: "ta_Artist ` set data = ts_Artist ` set top_artists"
  proof
    show "ta_Artist ` set data \<subseteq> ts_Artist ` set top_artists"
      by (auto simp add: data_def)
    show "ts_Artist ` set top_artists \<subseteq> ta_Artist ` set data"
    proof
      fix a
      assume a: "a \<in> ts_Artist ` set top_artists"
      then obtain t where "t \<in> set (top_artists_of df)" and "a = ts_Artist t"
        unfolding top by blast
      with top_artists_of_member(1) [of t df] obtain r where "r \<in> set df" and "ta_Artist r = a"
        by auto
      with a show "a \<in> ta_Artist ` set data"
        by (force simp add: data_def)
    qed
  qed
  have idx: "sort (remdups (map ta_Artist data)) = sort (remdups (map ts_Artist top_artists))"
    by (rule sorted_distinct_set_unique) (simp_all add: artists)
  have cols: "yd_columns yearly = sort (remdups (map ta_Year data))"
    by (simp add: yearly yd_def pivot_table_eq)
  with y have y_data: "y \<in> ta_Year ` set data"
    by simp
  then obtain r0 where "r0 \<in> set df" and "ta_Year r0 = y"
    by (auto simp add: data_def)
  then have "[r \<leftarrow> df. ta_Artist r = ta_Artist r0 \<and> ta_Year r = y] \<noteq> []"
    unfolding filter_empty_conv by blast
  with ranked_rows_of_key(2) [OF df_def, of "ta_Artist r0" y]
  show range: "start_year \<le> y \<and> y \<le> end_year"
    by simp
  have selected: "pivot_cell data a y = rank_cell st weights a y" if "a \<in> ts_Artist ` set top_artists" for a
  proof -
    have "[r \<leftarrow> data. ta_Artist r = a \<and> ta_Year r = y] = [r \<leftarrow> df. ta_Artist r = a \<and> ta_Year r = y]"
      unfolding data_def filter_filter using that by (intro filter_cong refl) auto
    then have "pivot_cell data a y = pivot_cell df a y"
      by (simp add: pivot_cell_def)
    with pivot_cell_rank_cell [OF df_def, of y a] range show ?thesis
      by simp
  qed
  have fresh: "''Average'' \<notin> fst ` set (yd_rows yd)"
    using free by (simp add: yd_def pivot_table_eq image_image artists)
  have lookup: "map_of (yd_rows yearly) l =
      (if l = ''Average'' then Some (column_means yd) else map_of (yd_rows yd) l)" for l
    by (simp add: yearly map_of_set_loc [OF fresh])
  have same_columns: "yd_columns yearly = yd_columns yd"
    by (simp add: yearly)
  show "cell_at yearly (ts_Artist t) y = Some (rank_cell st weights (ts_Artist t) y)"
    if t: "t \<in> set top_artists"
  proof -
    from t free have ne: "ts_Artist t \<noteq> ''Average''"
      by (metis imageI)
    from t have member: "ts_Artist t \<in> ta_Artist ` set data"
      unfolding artists by simp
    have "cell_at yearly (ts_Artist t) y = cell_at yd (ts_Artist t) y"
      using ne by (simp add: cell_at_def lookup same_columns cong: option.case_cong)
    also have "\<dots> = Some (pivot_cell data (ts_Artist t) y)"
      unfolding yd_def by (rule cell_at_pivot_table [OF member y_data])
    finally show ?thesis
      using t by (simp add: selected)
  qed
  show "cell_at yearly ''Average'' y =
           Some (nan_mean (map (\<lambda>a. rank_cell st weights a y)
                            (sort (remdups (map ts_Artist top_artists)))))"
  proof -
    from y obtain j where j: "j < length (yd_columns yd)" and yj: "yd_columns yd ! j = y"
      by (auto simp add: same_columns in_set_conv_nth)
    have len: "length (yd_columns yd) = length (column_means yd)"
      by (simp add: column_means_def)
    have dist: "distinct (yd_columns yd)"
      by (simp add: yd_def pivot_table_eq)
    have "cell_at yearly ''Average'' y = map_of (zip (yd_columns yd) (column_means yd)) y"
      by (simp add: cell_at_def lookup same_columns cong: option.case_cong)
    also have "\<dots> = Some (column_means yd ! j)"
      using map_of_zip_nth [OF len dist, of j] j yj len by simp
    also have "column_means yd ! j =
        nan_mean (map (\<lambda>a. pivot_cell data a y) (sort (remdups (map ta_Artist data))))"
      using column_means_pivot [of j data] j yj by (simp add: yd_def)
    also have "map (\<lambda>a. pivot_cell data a y) (sort (remdups (map ta_Artist data))) =
        map (\<lambda>a. rank_cell st weights a y) (sort (remdups (map ts_Artist top_artists)))"
      unfolding idx by (rule map_cong [OF refl]) (simp add: selected)
    finally show ?thesis .
  qed
qed


lemma distinct_artist_year_query:
  "distinct (map (\<lambda>(a, y, num_songs, avg). (a, y)) (artist_year_query st start_year end_year))"
proof -
  define h :: "(string \<times> int) \<times> (string \<times> song_row) list \<Rightarrow> string \<times> int \<times> nat \<times> real"
    where "h = (\<lambda>((a, y), rows). (a, y, length rows, ROUND (AVG (map (Popularity \<circ> snd) rows)) 2))"
  define G where "G = group_by (\<lambda>(a, s). (a, Year s)) (artist_year_join st start_year end_year)"
  define g :: "string \<times> int \<times> nat \<times> real \<Rightarrow> string \<times> int" where "g = (\<lambda>(a, y, num_songs, avg). (a, y))"
  have "map g (map h G) = map fst G"
    by (simp add: g_def h_def case_prod_unfold)
  then have "distinct (map g (map h G))"
    by (simp add: G_def map_fst_group_by)
  then have "distinct (map g [(a, y, num_songs, avg) \<leftarrow> map h G. num_songs > 0])"
    by (rule distinct_map_filter)
  then have "distinct (map g (sort_key (\<lambda>(a, y, num_songs, avg). (y, - int num_songs))
      [(a, y, num_songs, avg) \<leftarrow> map h G. num_songs > 0]))"
    by (simp add: distinct_map)
  then show ?thesis
    unfolding artist_year_query_def h_def G_def g_def .
qed

text \<open>
  The total rank value of a selected artist is the sum of the rank values of the years
  of the range in which the artist has a song.
\<close>

lemma top_artist_total:
  assumes run: "get_top_artists start_year end_year weights st = Some (yearly, top_artists)"
    and t: "t \<in> set top_artists"
  shows "ts_RankValue t =
           (\<Sum>y \<in> {y. start_year \<le> y \<and> y \<le> end_year \<and>
                       artist_year_songs st (ts_Artist t) y \<noteq> []}.
              the (rank_cell st weights (ts_Artist t) y))"
proof -
  define df where "df = map (add_rank_value weights) (artist_year_query st start_year end_year)"
  define a where "a = ts_Artist t"
  define rows where "rows = [r \<leftarrow> df. ta_Artist r = a]"
  define years where "years = {y. start_year \<le> y \<and> y \<le> end_year \<and> artist_year_songs st a y \<noteq> []}"
  from run have "top_artists = top_artists_of df"
    by (auto simp add: get_top_artists_def Let_def df_def split: if_splits)
  with t top_artists_of_member(2) [of t df] have total: "ts_RankValue t = sum_list (map ta_RankValue rows)"
    by (simp add: rows_def a_def)
  have member: "r = ranked_row st weights a (ta_Year r) \<and> ta_Year r \<in> years" if "r \<in> set rows" for r
  proof -
    from that have "r \<in> set df" and "ta_Artist r = a"
      by (simp_all add: rows_def)
    then obtain a' y' where "r = ranked_row st weights a' y'" and
      "start_year \<le> y' \<and> y' \<le> end_year \<and> artist_year_songs st a' y' \<noteq> []"
      unfolding df_def df_rows by blast
    with \<open>ta_Artist r = a\<close> show ?thesis
      by (simp add: ranked_row_def Let_def years_def)
  qed
  have rank: "ta_RankValue r = the (rank_cell st weights a (ta_Year r))" if "r \<in> set rows" for r
  proof -
    from member [OF that] have "r = ranked_row st weights a (ta_Year r)"
      and "artist_year_songs st a (ta_Year r) \<noteq> []"
      by (simp_all add: years_def)
    then have "ta_RankValue r = ta_RankValue (ranked_row st weights a (ta_Year r))"
      and "artist_year_songs st a (ta_Year r) \<noteq> []"
      by simp_all
    then show ?thesis
      by (simp add: ranked_row_def rank_cell_def Let_def)
  qed
  have "distinct (map (\<lambda>r. (ta_Artist r, ta_Year r)) df)"
    using distinct_artist_year_query [of st start_year end_year]
    by (simp add: df_def comp_def add_rank_value_def case_prod_unfold)
  then have "distinct (map (\<lambda>r. (ta_Artist r, ta_Year r)) rows)"
    unfolding rows_def by (rule distinct_map_filter)
  then have dist: "distinct (map ta_Year rows)"
    by (auto simp add: distinct_map inj_on_def rows_def)
  have set_years: "set (map ta_Year rows) = years"
  proof (intro equalityI subsetI)
    fix y
    assume "y \<in> set (map ta_Year rows)"
    with member show "y \<in> years"
      by auto
  next
    fix y
    assume "y \<in> years"
    then have "ranked_row st weights a y \<in> set df"
      unfolding df_def df_rows years_def by blast
    then have "ranked_row st weights a y \<in> set rows"
      by (simp add: rows_def ranked_row_def Let_def)
    then have "ta_Year (ranked_row st weights a y) \<in> set (map ta_Year rows)"
      by (metis image_eqI set_map)
    then show "y \<in> set (map ta_Year rows)"
      by (simp add: ranked_row_def Let_def)
  qed
  have "sum_list (map ta_RankValue rows) =
      sum_list (map (\<lambda>y. the (rank_cell st weights a y)) (map ta_Year rows))"
    unfolding map_map comp_def by (rule arg_cong [where f = sum_list], rule map_cong [OF refl])
      (simp add: rank)
  also have "\<dots> = (\<Sum>y \<in> set (map ta_Year rows). the (rank_cell st weights a y))"
    using dist by (rule sum_list_distinct_conv_sum_set)
  finally show ?thesis
    unfolding total set_years years_def a_def .
qed


lemma average_rows:
  "artist_year_query (ranking_store ''Average'') 2010 2011 =
     [(''Average'', 2010, 1, 60), (''B'', 2011, 1, 70)]"
  by (simp add: artist_year_query_def artist_year_join_def ranking_store_def example_song_def
      group_by_def unique_def AVG_def ROUND_def)

lemma average_ranked:
  "map (add_rank_value default_weights) [(''Average'', 2010, 1, 60), (''B'', 2011, 1, 70)] =
     average_df"
  by (simp add: add_rank_value_def calculate_ranking_value_def normalized_songs_def
      max_songs_def default_weights_def average_df_def)

lemma average_summary: "top_artists_of average_df = average_top"
  by (simp add: top_artists_of_def AVG_def average_df_def average_top_def)

lemma average_selected:
  "[r \<leftarrow> average_df. ta_Artist r \<in> ts_Artist ` set average_top] = average_df"
  by (simp add: average_df_def average_top_def)

lemma average_pivot_table: "pivot_table average_df = average_pivot"
  by (simp add: pivot_table_def pivot_cell_def AVG_def average_df_def average_pivot_def)

lemma average_means: "column_means average_pivot = [Some (182 / 5), Some (212 / 5)]"
  by (simp add: column_means_def nan_mean_def AVG_def upt_rec average_pivot_def)

text \<open>
  C8, at an input where the code departs from it. The store is loaded from two filtered
  records: an artist whose name is \<open>Average\<close>, with one song in 2010 and none in 2011,
  and an artist \<open>B\<close> with one song in 2011. The pivot table has the cell of \<open>Average\<close> and 2011 empty, but
  \<open>yearly_data.loc['Average'] = yearly_data.mean()\<close> then overwrites the artist's row
  with the column means instead of appending a row: in the output the cell of the artist
  \<open>Average\<close> and the year 2011 holds 42.4, and no row is appended.
\<close>

theorem C8_average_row_overwrites_artist:
  "filter_data (ranking_records ''Average'') =
     Inr (map numeric_row (ranking_records ''Average'')) \<and>
   create_and_populate_database (map numeric_row (ranking_records ''Average'')) =
     Inr (ranking_store ''Average'') \<and>
   get_top_artists 2010 2011 default_weights (ranking_store ''Average'') =
     Some (\<lparr>yd_columns = [2010, 2011],
            yd_rows = [(''Average'', [Some (182 / 5), Some (212 / 5)]),
                       (''B'', [None, Some (212 / 5)])]\<rparr>,
           average_top) \<and>
   [s \<leftarrow> Song (ranking_store ''Average''). ArtistID s = 1 \<and> Year s = 2011] = [] \<and>
   cell_at (pivot_table average_df) ''Average'' 2011 = Some None"
proof -
  have "get_top_artists 2010 2011 default_weights (ranking_store ''Average'') =
      Some (average_pivot\<lparr>yd_rows :=
              set_loc ''Average'' [Some (182 / 5), Some (212 / 5)] (yd_rows average_pivot)\<rparr>,
            average_top)"
    unfolding get_top_artists_def average_rows Let_def average_ranked average_summary
      average_selected average_pivot_table average_means
    by simp
  then show ?thesis
    unfolding ranking_store_loaded filter_ranking_records
    by (simp add: average_pivot_table)
      (simp add: average_pivot_def set_loc_def ranking_store_def example_song_def cell_at_def)
qed

end
